theory Spec2Isabelle
  imports Complex_Main "HOL-Library.Multiset"
begin

section \<open>JavaScript numbers, strings and sorting\<close>

text \<open>
  The repository is TypeScript. A JavaScript number is an IEEE double; the model
  idealises finite doubles as real numbers (no rounding error of the arithmetic, no
  signed zero) and keeps the three non-finite values explicit, so that a division by
  zero is a branch of the model and not an unspecified real.
\<close>

datatype jsnum = Num real | PInf | NInf | NaN

text \<open>\<^verbatim>\<open>x / y\<close> on two finite numbers.\<close>

definition js_div :: "real \<Rightarrow> real \<Rightarrow> jsnum" where
  "js_div x y =
     (if y = 0 then (if x = 0 then NaN else if 0 < x then PInf else NInf)
      else Num (x / y))"

text \<open>\<^verbatim>\<open>Math.round(x)\<close> on a finite number: the nearest integer, halves upwards.\<close>

definition Math_round :: "real \<Rightarrow> int" where
  "Math_round x = \<lfloor>x + 1 / 2\<rfloor>"

text \<open>
  \<^verbatim>\<open>x % m\<close> on finite numbers with \<open>m \<noteq> 0\<close>: the remainder of the division truncated
  towards zero, so the result has the sign of \<open>x\<close>.
\<close>

definition js_rem :: "real \<Rightarrow> real \<Rightarrow> real" where
  "js_rem x m =
     x - m * real_of_int (if 0 \<le> x / m then \<lfloor>x / m\<rfloor> else \<lceil>x / m\<rceil>)"

text \<open>Arithmetic, comparison and rounding on numbers that may be infinite or NaN.\<close>

fun js_neg :: "jsnum \<Rightarrow> jsnum" where
  "js_neg (Num x) = Num (- x)"
| "js_neg PInf = NInf"
| "js_neg NInf = PInf"
| "js_neg NaN = NaN"

fun js_add :: "jsnum \<Rightarrow> jsnum \<Rightarrow> jsnum" where
  "js_add (Num x) (Num y) = Num (x + y)"
| "js_add NaN _ = NaN"
| "js_add _ NaN = NaN"
| "js_add PInf NInf = NaN"
| "js_add NInf PInf = NaN"
| "js_add PInf _ = PInf"
| "js_add NInf _ = NInf"
| "js_add (Num x) y = y"

definition js_sub :: "jsnum \<Rightarrow> jsnum \<Rightarrow> jsnum" where
  "js_sub a b = js_add a (js_neg b)"

fun js_mul :: "jsnum \<Rightarrow> jsnum \<Rightarrow> jsnum" where
  "js_mul (Num x) (Num y) = Num (x * y)"
| "js_mul NaN _ = NaN"
| "js_mul _ NaN = NaN"
| "js_mul (Num x) PInf = (if x = 0 then NaN else if 0 < x then PInf else NInf)"
| "js_mul (Num x) NInf = (if x = 0 then NaN else if 0 < x then NInf else PInf)"
| "js_mul PInf (Num y) = (if y = 0 then NaN else if 0 < y then PInf else NInf)"
| "js_mul NInf (Num y) = (if y = 0 then NaN else if 0 < y then NInf else PInf)"
| "js_mul PInf PInf = PInf"
| "js_mul PInf NInf = NInf"
| "js_mul NInf PInf = NInf"
| "js_mul NInf NInf = PInf"

text \<open>\<^verbatim>\<open>a / b\<close> where the divisor is finite (a length or a constant).\<close>

fun js_quot :: "jsnum \<Rightarrow> real \<Rightarrow> jsnum" where
  "js_quot (Num x) y = js_div x y"
| "js_quot NaN y = NaN"
| "js_quot PInf y = (if y < 0 then NInf else PInf)"
| "js_quot NInf y = (if y < 0 then PInf else NInf)"

text \<open>\<^verbatim>\<open>a < b\<close>: false as soon as one side is NaN.\<close>

fun js_less :: "jsnum \<Rightarrow> jsnum \<Rightarrow> bool" where
  "js_less (Num x) (Num y) = (x < y)"
| "js_less NaN _ = False"
| "js_less _ NaN = False"
| "js_less _ NInf = False"
| "js_less PInf _ = False"
| "js_less NInf _ = True"
| "js_less (Num x) PInf = True"

text \<open>\<^verbatim>\<open>Math.min(a, b)\<close> and \<^verbatim>\<open>Math.max(a, b)\<close>: NaN as soon as one argument is.\<close>

definition Math_min :: "jsnum \<Rightarrow> jsnum \<Rightarrow> jsnum" where
  "Math_min a b = (if a = NaN \<or> b = NaN then NaN else if js_less b a then b else a)"

definition Math_max :: "jsnum \<Rightarrow> jsnum \<Rightarrow> jsnum" where
  "Math_max a b = (if a = NaN \<or> b = NaN then NaN else if js_less a b then b else a)"

text \<open>\<^verbatim>\<open>Math.round\<close> on any number: the infinities and NaN are returned as they are.\<close>

fun js_round :: "jsnum \<Rightarrow> jsnum" where
  "js_round (Num x) = Num (real_of_int (Math_round x))"
| "js_round a = a"

text \<open>
  \<^verbatim>\<open>array.sort(comparefn)\<close>. ECMAScript makes the sort stable and reads a NaN returned
  by the comparison function as 0. The model is a stable insertion sort: an element
  moves behind those before which \<^verbatim>\<open>comparefn\<close> puts it strictly later. For a consistent
  comparison function every stable sort returns this list; for an inconsistent one
  (a NaN key among different finite keys) ECMAScript leaves the order to the
  implementation, and the model is one such order.
\<close>

fun js_insert :: "('a \<Rightarrow> 'a \<Rightarrow> jsnum) \<Rightarrow> 'a \<Rightarrow> 'a list \<Rightarrow> 'a list" where
  "js_insert cmp x [] = [x]"
| "js_insert cmp x (y # ys) =
     (if js_less (Num 0) (cmp x y) then y # js_insert cmp x ys else x # y # ys)"

definition js_sort :: "('a \<Rightarrow> 'a \<Rightarrow> jsnum) \<Rightarrow> 'a list \<Rightarrow> 'a list" where
  "js_sort cmp xs = foldr (js_insert cmp) xs []"

text \<open>A JavaScript exception; the code under study only meets the TypeError of reading a
  property of \<^verbatim>\<open>null\<close> or \<^verbatim>\<open>undefined\<close>.\<close>

datatype js_error = TypeError

text \<open>
  Strings are lists of 8-bit characters. \<^verbatim>\<open>toLowerCase\<close> is modelled on ASCII
  (\<open>A\<close>..\<open>Z\<close>), \<^verbatim>\<open>trim\<close> on the ASCII white space and line terminators.
\<close>

definition toLowerChar :: "char \<Rightarrow> char" where
  "toLowerChar c =
     (case map_of (zip ''ABCDEFGHIJKLMNOPQRSTUVWXYZ'' ''abcdefghijklmnopqrstuvwxyz'') c of
        None \<Rightarrow> c
      | Some lower \<Rightarrow> lower)"

definition toLowerCase :: "string \<Rightarrow> string" where
  "toLowerCase str = map toLowerChar str"

definition isWhiteSpace :: "char \<Rightarrow> bool" where
  "isWhiteSpace c = (c \<in> set [CHR '' '', CHR 0x09, CHR 0x0A, CHR 0x0B, CHR 0x0C, CHR 0x0D])"

definition trim :: "string \<Rightarrow> string" where
  "trim str = rev (dropWhile isWhiteSpace (rev (dropWhile isWhiteSpace str)))"

text \<open>The character class \<^verbatim>\<open>[0-9a-f]\<close>, and the same under the \<^verbatim>\<open>i\<close> flag.\<close>

definition isHexLower :: "char \<Rightarrow> bool" where
  "isHexLower c = (c \<in> set ''0123456789abcdef'')"

definition isHexDigit :: "char \<Rightarrow> bool" where
  "isHexDigit c = (c \<in> set ''0123456789abcdefABCDEF'')"

text \<open>\<^verbatim>\<open>parseInt(str, 16)\<close> on a string of hexadecimal digits (either case).\<close>

definition hexDigitVal :: "char \<Rightarrow> nat" where
  "hexDigitVal c =
     (let n = (of_char c :: nat)
      in if 48 \<le> n \<and> n \<le> 57 then n - 48
         else if 97 \<le> n \<and> n \<le> 102 then n - 87
         else n - 55)"

definition parseInt16 :: "string \<Rightarrow> nat" where
  "parseInt16 str = foldl (\<lambda>acc c. 16 * acc + hexDigitVal c) 0 str"

text \<open>The decimal rendering of an integer, as \<^verbatim>\<open>String(n)\<close> gives it below \<open>10^21\<close>.\<close>

fun showNat :: "nat \<Rightarrow> string" where
  "showNat n =
     (if n < 10 then [char_of (48 + n)] else showNat (n div 10) @ [char_of (48 + n mod 10)])"

definition showInt :: "int \<Rightarrow> string" where
  "showInt i = (if i < 0 then CHR ''-'' # showNat (nat (- i)) else showNat (nat i))"

text \<open>\<^verbatim>\<open>parts.join(sep)\<close>\<close>

fun join :: "string \<Rightarrow> string list \<Rightarrow> string" where
  "join sep [] = []"
| "join sep [x] = x"
| "join sep (x # y # ys) = x @ sep @ join sep (y # ys)"

section \<open>ColorMetrics\<close>

record hsl =
  hsl_h :: real
  hsl_s :: real
  hsl_l :: real

text \<open>\<^verbatim>\<open>rgb.map(v => v >= 1 ? v / 255 : v)\<close>\<close>

definition normalizeRgb :: "real list \<Rightarrow> real list" where
  "normalizeRgb rgb = map (\<lambda>v. if v \<ge> 1 then v / 255 else v) rgb"

text \<open>The local \<^verbatim>\<open>round = v => Math.round(v * 1000) / 1000\<close> of \<^verbatim>\<open>hexToRgb\<close>.\<close>

definition round3 :: "real \<Rightarrow> real" where
  "round3 v = real_of_int (Math_round (v * 1000)) / 1000"

text \<open>\<^verbatim>\<open>/^[0-9a-f]{3}$|^[0-9a-f]{6}$|^[0-9a-f]{8}$/.test(normalized)\<close>\<close>

definition hexPattern :: "string \<Rightarrow> bool" where
  "hexPattern str = (length str \<in> set [3, 6, 8] \<and> list_all isHexLower str)"

text \<open>
  \<^verbatim>\<open>hexToRgb\<close> returns a four-element array (red, green, blue, alpha) although its
  declared type is a triple. The test for the three-digit form reads the length of the
  argument \<^verbatim>\<open>hex\<close>, not of \<^verbatim>\<open>normalized\<close>.
\<close>

definition hexToRgb :: "string \<Rightarrow> real list" where
  "hexToRgb hex =
     (let normalized0 = toLowerCase (trim hex);
          normalized1 = (if take 1 normalized0 = ''#'' then drop 1 normalized0 else normalized0)
      in if \<not> hexPattern normalized1 then [0, 0, 0, 1]
         else
           let normalized =
                 (if length hex = 3 then concat (map (\<lambda>ch. [ch, ch]) normalized1)
                  else normalized1);
               r = real (parseInt16 (take 2 normalized));
               g = real (parseInt16 (take 2 (drop 2 normalized)));
               b = real (parseInt16 (take 2 (drop 4 normalized)))
           in if length normalized = 6 then map round3 (normalizeRgb [r, g, b, 1])
              else if length normalized = 8
                then map round3 (normalizeRgb
                       [r, g, b, real (parseInt16 (take 2 (drop 6 normalized)))])
              else [0, 0, 0, 1])"

text \<open>
  The rounding \<^verbatim>\<open>Math.round(x * 10) / 10\<close> at the end of \<^verbatim>\<open>calculateHueRange\<close>, on
  real numbers. In double arithmetic the product \<^verbatim>\<open>x * 10\<close> carries a rounding error, so
  for a bound within that error of a tie (such as 2.15, whose double lies below the
  decimal) the code may return either neighbouring multiple of 0.1; away from ties the
  two agree.
\<close>

definition round1 :: "real \<Rightarrow> real" where
  "round1 x = real_of_int (Math_round (x * 10)) / 10"

definition calculateHueRange :: "hsl \<Rightarrow> real \<times> real" where
  "calculateHueRange c =
     (if hsl_s c < 0.05 then (0, 360)
      else
        let spread = max 1 (20 * (1 - hsl_s c));
            start0 = hsl_h c - spread;
            end0 = hsl_h c + spread;
            start = (if start0 < 0 then 0 else start0);
            end1 = (if end0 > 360 then 360 else end0)
        in if end1 - start > 180 then (0, 360)
           else (round1 start, round1 end1))"

datatype Family =
    Black | White | Gray | Pastel | Neon
  | Red | Orange | Yellow | Chartreuse | Green | Springgreen | Cyan | Azure | Blue
  | Violet | Magenta | Rose
  | Brown | Earth | Pink | Metallic | Skin | Jewel | Nature | Food
  | Lime | Teal | Purple

text \<open>The chain of comparisons that assigns \<^verbatim>\<open>baseFamily\<close> in \<^verbatim>\<open>getColorFamily\<close>.\<close>

definition baseFamilyOf :: "real \<Rightarrow> Family" where
  "baseFamilyOf h =
     (if h \<ge> 345 \<or> h \<le> 15 then Red
      else if h < 45 then Orange
      else if h < 75 then Yellow
      else if h < 105 then Chartreuse
      else if h < 135 then Green
      else if h < 165 then Springgreen
      else if h < 195 then Cyan
      else if h < 225 then Azure
      else if h < 255 then Blue
      else if h < 285 then Violet
      else if h < 315 then Magenta
      else if h < 345 then Rose
      else Red)"

text \<open>
  \<^verbatim>\<open>getColorFamily({ h, s = 1, l = 0.5 })\<close>: a missing \<^verbatim>\<open>s\<close> or \<^verbatim>\<open>l\<close> takes its
  default. The rules are tried in the order of the source; the first that matches
  returns.
\<close>

definition getColorFamily :: "real \<Rightarrow> real option \<Rightarrow> real option \<Rightarrow> Family" where
  "getColorFamily h0 sOpt lOpt =
     (let s = (case sOpt of None \<Rightarrow> 1 | Some v \<Rightarrow> v);
          l = (case lOpt of None \<Rightarrow> 0.5 | Some v \<Rightarrow> v);
          h = js_rem (js_rem h0 360 + 360) 360
      in if l < 0.15 then Black
         else if s < 0.1 then (if l > 0.9 then White else Gray)
         else if s < 0.3 \<and> l > 0.6 then Pastel
         else if s > 0.8 \<and> l > 0.8 then Neon
         else
           let baseFamily = baseFamilyOf h
           in if (s < 0.5 \<and> l < 0.7) \<and> baseFamily \<in> set [Orange, Yellow, Red]
                then (if s < 0.6 \<and> l < 0.7 then Brown else Earth)
              else if (baseFamily = Red \<or> baseFamily = Rose \<or> baseFamily = Magenta) \<and>
                      l > 0.7 \<and> s > 0.3 \<and> s < 0.8 then Pink
              else if baseFamily \<in> set [Yellow, Orange] \<and> s > 0.2 \<and> s < 0.7 \<and> l > 0.5
                then Metallic
              else if baseFamily \<in> set [Orange, Yellow, Brown] \<and>
                      s > 0.2 \<and> s < 0.7 \<and> l > 0.4 \<and> l < 0.9 then Skin
              else if baseFamily \<in> set [Red, Green, Blue, Purple, Magenta] \<and>
                      s > 0.7 \<and> l > 0.5 then Jewel
              else if baseFamily \<in> set [Green, Blue, Springgreen, Cyan] \<and>
                      s > 0.3 \<and> s < 0.8 \<and> l > 0.3 \<and> l < 0.9 then Nature
              else if baseFamily \<in> set [Red, Orange, Yellow, Green, Brown] \<and>
                      s > 0.5 \<and> l > 0.5 then Food
              else if baseFamily = Chartreuse then Lime
              else if baseFamily = Cyan \<or> baseFamily = Springgreen then Teal
              else if baseFamily = Violet then Purple
              else baseFamily)"


text \<open>
  The canonical colour record. \<^verbatim>\<open>oid\<close> is the identity of the JavaScript object:
  \<^verbatim>\<open>===\<close> on two records compares identities, not contents.
\<close>

record ColorData =
  oid :: nat
  hex :: string
  name :: string
  family :: string
  hueRange :: "real \<times> real"
  rgb :: "real list"
  hsl :: hsl

section \<open>StringMetrics\<close>

text \<open>The table \<^verbatim>\<open>H\<close> is an array of rows; \<^verbatim>\<open>H[i][j] = v\<close> and \<^verbatim>\<open>H[i][j]\<close>.\<close>

definition set2 :: "int list list \<Rightarrow> nat \<Rightarrow> nat \<Rightarrow> int \<Rightarrow> int list list" where
  "set2 H i j v = H[i := (H ! i)[j := v]]"

definition get2 :: "int list list \<Rightarrow> nat \<Rightarrow> nat \<Rightarrow> int" where
  "get2 H i j = H ! i ! j"

text \<open>
  One pass of the inner loop of \<^verbatim>\<open>damerauLevenshtein\<close>, at row \<open>i\<close> and column \<open>j\<close>
  (both from 1); the state is the table and \<^verbatim>\<open>db\<close>. \<^verbatim>\<open>da.get(b[j - 1]) || 0\<close> is 0 for
  a character not yet stored.
\<close>

definition dlInner ::
  "string \<Rightarrow> string \<Rightarrow> (char \<rightharpoonup> nat) \<Rightarrow> nat \<Rightarrow> nat \<Rightarrow> int list list \<times> nat \<Rightarrow> int list list \<times> nat"
where
  "dlInner a b da i j st =
     (let H = fst st; db = snd st;
          i1 = (case da (b ! (j - 1)) of None \<Rightarrow> 0 | Some v \<Rightarrow> v);
          j1 = db;
          cost = (if a ! (i - 1) = b ! (j - 1) then 0 else 1);
          db' = (if cost = 0 then j else db);
          v = min (min (min (get2 H i (j + 1) + cost) (get2 H (i + 1) j + 1))
                       (get2 H i j + 1))
                  (get2 H i1 j1 + (int i - int i1 - 1) + 1 + (int j - int j1 - 1))
      in (set2 H (i + 1) (j + 1) v, db'))"

text \<open>One pass of the outer loop: the state is the table and the map \<^verbatim>\<open>da\<close>.\<close>

definition dlOuter ::
  "string \<Rightarrow> string \<Rightarrow> nat \<Rightarrow> int list list \<times> (char \<rightharpoonup> nat) \<Rightarrow> int list list \<times> (char \<rightharpoonup> nat)"
where
  "dlOuter a b i st =
     (let H = fst st; da = snd st;
          H' = fst (fold (dlInner a b da i) [1 ..< length b + 1] (H, 0))
      in (H', da(a ! (i - 1) \<mapsto> i)))"

definition damerauLevenshtein :: "string \<Rightarrow> string \<Rightarrow> int" where
  "damerauLevenshtein a b =
     (let aLen = length a; bLen = length b;
          maxDist = int (aLen + bLen);
          H0 = replicate (aLen + 2) (replicate (bLen + 2) maxDist);
          H1 = fold (\<lambda>i H. set2 (set2 H (i + 1) 0 maxDist) (i + 1) 1 (int i)) [0 ..< aLen + 1] H0;
          H2 = fold (\<lambda>j H. set2 (set2 H 0 (j + 1) maxDist) 1 (j + 1) (int j)) [0 ..< bLen + 1] H1;
          H3 = fst (fold (dlOuter a b) [1 ..< aLen + 1] (H2, Map.empty))
      in get2 H3 (aLen + 1) (bLen + 1))"

text \<open>
  The distance the specification names: the restricted Damerau-Levenshtein (optimal
  string alignment) distance, by its defining recurrence, written from the
  specification and not from the code. It is the least number of insertions,
  deletions, substitutions and transpositions of two adjacent characters, none of
  which touches a transposed pair again.
\<close>

fun osa_distance :: "string \<Rightarrow> string \<Rightarrow> nat" where
  "osa_distance [] ys = length ys"
| "osa_distance (x # xs) [] = Suc (length xs)"
| "osa_distance [x] [y] = (if x = y then 0 else 1)"
| "osa_distance [x] (y # y' # ys) =
     min (min (osa_distance [] (y # y' # ys) + 1) (osa_distance [x] (y' # ys) + 1))
         (osa_distance [] (y' # ys) + (if x = y then 0 else 1))"
| "osa_distance (x # x' # xs) [y] =
     min (min (osa_distance (x' # xs) [y] + 1) (osa_distance (x # x' # xs) [] + 1))
         (osa_distance (x' # xs) [] + (if x = y then 0 else 1))"
| "osa_distance (x # x' # xs) (y # y' # ys) =
     (let d = min (min (osa_distance (x' # xs) (y # y' # ys) + 1)
                       (osa_distance (x # x' # xs) (y' # ys) + 1))
                  (osa_distance (x' # xs) (y' # ys) + (if x = y then 0 else 1))
      in if x = y' \<and> x' = y then min d (osa_distance xs ys + 1) else d)"


section \<open>SemanticDeduplicator\<close>

record DuplicateGroup =
  dg_hex :: string
  dg_names :: "string list"
  dg_selected :: string
  dg_reason :: string

record DeduplicateRawResult =
  colors :: "ColorData list"
  stats :: "DuplicateGroup list"

text \<open>
  A JavaScript \<^verbatim>\<open>Map\<close> from keys to arrays, in insertion order:
  \<^verbatim>\<open>if (!m.has(k)) m.set(k, []); m.get(k).push(v)\<close>.
\<close>

definition groupPush :: "'k \<Rightarrow> 'v \<Rightarrow> ('k \<times> 'v list) list \<Rightarrow> ('k \<times> 'v list) list" where
  "groupPush k v groups =
     (if k \<in> set (map fst groups)
      then map (\<lambda>g. if fst g = k then (fst g, snd g @ [v]) else g) groups
      else groups @ [(k, [v])])"

text \<open>The test \<^verbatim>\<open>priorityColors.some(pc => ...)\<close> of \<^verbatim>\<open>calculateScore\<close> and
  \<^verbatim>\<open>getSelectionReason\<close>.\<close>

definition inPriority :: "ColorData \<Rightarrow> ColorData list \<Rightarrow> bool" where
  "inPriority color priorityColors =
     list_ex (\<lambda>pc. toLowerCase (hex pc) = toLowerCase (hex color) \<and>
                    toLowerCase (name pc) = toLowerCase (name color)) priorityColors"

text \<open>
  \<^verbatim>\<open>SemanticAnalyzer\<close> is not among the sources: its \<^verbatim>\<open>scoreSemanticMatch\<close> is the
  parameter \<open>sem\<close> of the functions below, a finite number for every record.
\<close>

definition calculateScore ::
  "(ColorData \<Rightarrow> real) \<Rightarrow> ColorData \<Rightarrow> ColorData list \<Rightarrow> nat \<Rightarrow> ColorData list \<Rightarrow> jsnum"
where
  "calculateScore sem color grp idx priorityColors =
     (let score0 = (if inPriority color priorityColors then 60 else 0);
          score1 = score0 + sem color * 0.3;
          minDistance =
            fold (\<lambda>other m. if oid other = oid color then m
                             else Math_min m (Num (real_of_int
                                    (damerauLevenshtein (name color) (name other)))))
                 grp PInf;
          score2 = js_add (Num score1)
                     (js_mul (Math_min (js_mul minDistance (Num 10)) (Num 100)) (Num 0.15));
          lengthScore = max 0 (10 - \<bar>int (length (name color)) - 10\<bar>);
          score3 = js_add score2 (Num (real_of_int lengthScore * 0.1));
          priorityScore = (int (length grp) - int idx) * 5
      in js_add score3 (Num (real_of_int priorityScore * 0.05)))"

text \<open>\<^verbatim>\<open>scores[0].color\<close> throws a TypeError on an empty group.\<close>

definition selectBestName ::
  "(ColorData \<Rightarrow> real) \<Rightarrow> ColorData list \<Rightarrow> ColorData list \<Rightarrow> js_error + ColorData"
where
  "selectBestName sem grp priorityColors =
     (let scores = map (\<lambda>p. (calculateScore sem (snd p) grp (fst p) priorityColors, snd p))
                       (enumerate 0 grp);
          sorted = js_sort (\<lambda>a b. js_sub (fst b) (fst a)) scores
      in case sorted of [] \<Rightarrow> Inl TypeError | best # _ \<Rightarrow> Inr (snd best))"

definition getSelectionReason ::
  "(ColorData \<Rightarrow> real) \<Rightarrow> ColorData list \<Rightarrow> ColorData \<Rightarrow> ColorData list \<Rightarrow> string"
where
  "getSelectionReason sem grp winner priorityColors =
     (let names = map name grp;
          r1 = (if inPriority winner priorityColors then [''Priority dataset''] else []);
          r2 = (if ''gray'' \<in> set names \<and> ''grey'' \<in> set names then [''CSS standard''] else []);
          semanticScore = sem winner;
          r3 = (if semanticScore > 50
                then [''Semantic: '' @ showInt (Math_round semanticScore)] else [])
      in join '' | '' (r1 @ r2 @ r3))"

text \<open>
  The loop over \<^verbatim>\<open>hexGroups\<close>: the winner of each group in the order of the map, and a
  \<^verbatim>\<open>DuplicateGroup\<close> for each group of more than one record.
\<close>

fun hexPhase ::
  "(ColorData \<Rightarrow> real) \<Rightarrow> ColorData list \<Rightarrow> (string \<times> ColorData list) list \<Rightarrow>
   js_error + (ColorData list \<times> DuplicateGroup list)"
where
  "hexPhase sem prio [] = Inr ([], [])"
| "hexPhase sem prio (g # rest) =
     (case (case snd g of
              [single] \<Rightarrow> Inr (single, [])
            | grp \<Rightarrow>
                (case selectBestName sem grp prio of
                   Inl e \<Rightarrow> Inl e
                 | Inr winner \<Rightarrow>
                     Inr (winner,
                          [\<lparr>dg_hex = fst g, dg_names = map name grp,
                            dg_selected = name winner,
                            dg_reason = getSelectionReason sem grp winner prio @ '' | HEX''\<rparr>])))
      of Inl e \<Rightarrow> Inl e
       | Inr wd \<Rightarrow>
           (case hexPhase sem prio rest of
              Inl e \<Rightarrow> Inl e
            | Inr r \<Rightarrow> Inr (fst wd # fst r, snd wd @ snd r)))"

text \<open>The loop over \<^verbatim>\<open>nameGroups\<close>.\<close>

fun namePhase ::
  "(ColorData \<Rightarrow> real) \<Rightarrow> ColorData list \<Rightarrow> (string \<times> ColorData list) list \<Rightarrow>
   js_error + (ColorData list \<times> DuplicateGroup list)"
where
  "namePhase sem prio [] = Inr ([], [])"
| "namePhase sem prio (g # rest) =
     (case (case snd g of
              [single] \<Rightarrow> Inr (single, [])
            | nameGroup \<Rightarrow>
                (case selectBestName sem nameGroup prio of
                   Inl e \<Rightarrow> Inl e
                 | Inr winner \<Rightarrow>
                     Inr (winner,
                          [\<lparr>dg_hex = join '', '' (map hex nameGroup),
                            dg_names = map name nameGroup,
                            dg_selected = name winner,
                            dg_reason =
                              getSelectionReason sem nameGroup winner prio @ '' | NAME''\<rparr>])))
      of Inl e \<Rightarrow> Inl e
       | Inr wd \<Rightarrow>
           (case namePhase sem prio rest of
              Inl e \<Rightarrow> Inl e
            | Inr r \<Rightarrow> Inr (fst wd # fst r, snd wd @ snd r)))"

text \<open>
  \<^verbatim>\<open>deduplicate(colors, priorityColors)\<close>. A winner with an empty name is skipped by
  the loop that fills \<^verbatim>\<open>nameGroups\<close>; \<^verbatim>\<open>finalResult\<close> is built from \<^verbatim>\<open>nameGroups\<close>
  alone. The progress bar is display only.
\<close>

definition deduplicate ::
  "(ColorData \<Rightarrow> real) \<Rightarrow> ColorData list \<Rightarrow> ColorData list \<Rightarrow> js_error + DeduplicateRawResult"
where
  "deduplicate sem cs priorityColors =
     (let hexGroups = fold (\<lambda>color groups. groupPush (toLowerCase (hex color)) color groups) cs []
      in case hexPhase sem priorityColors hexGroups of
           Inl e \<Rightarrow> Inl e
         | Inr hw \<Rightarrow>
             (let hexWinners = fst hw; hexDuplicates = snd hw;
                  nameGroups =
                    fold (\<lambda>winner groups.
                            if name winner = [] then groups
                            else groupPush (toLowerCase (name winner)) winner groups)
                         hexWinners []
              in if nameGroups = [] then Inr \<lparr>colors = hexWinners, stats = hexDuplicates\<rparr>
                 else
                   (case namePhase sem priorityColors nameGroups of
                      Inl e \<Rightarrow> Inl e
                    | Inr nw \<Rightarrow>
                        Inr \<lparr>colors = fst nw, stats = hexDuplicates @ snd nw\<rparr>)))"


section \<open>SpectrumAnalyzer\<close>

record SpectrumBucket =
  hueMin :: real
  hueMax :: real
  bucketColors :: "ColorData list"
  density :: nat
  avgSaturation :: real
  avgLightness :: real

record FamilyRange =
  minH :: real
  maxH :: real
  minS :: real
  maxS :: real
  minL :: real
  maxL :: real

text \<open>
  The maps \<^verbatim>\<open>buckets\<close> and \<^verbatim>\<open>familyRanges\<close> and the set \<^verbatim>\<open>families\<close> are kept in
  insertion order; the key of a bucket is its \<^verbatim>\<open>hueMin\<close>.
\<close>

record SpectrumCoverage =
  buckets :: "SpectrumBucket list"
  minHue :: jsnum
  maxHue :: jsnum
  families :: "string list"
  familyRanges :: "(string \<times> FamilyRange) list"

text \<open>\<^verbatim>\<open>Math.min(...xs)\<close> and \<^verbatim>\<open>Math.max(...xs)\<close> on an array of finite numbers.\<close>

definition Math_min_of :: "real list \<Rightarrow> jsnum" where
  "Math_min_of xs = fold (\<lambda>x m. Math_min m (Num x)) xs PInf"

definition Math_max_of :: "real list \<Rightarrow> jsnum" where
  "Math_max_of xs = fold (\<lambda>x m. Math_max m (Num x)) xs NInf"

definition initialBuckets :: "SpectrumBucket list" where
  "initialBuckets =
     map (\<lambda>i. \<lparr>hueMin = real (15 * i), hueMax = real (15 * i) + 15, bucketColors = [],
                density = 0, avgSaturation = 0, avgLightness = 0\<rparr>) [0 ..< 24]"

text \<open>The body of the loop of \<^verbatim>\<open>analyzeCoverage\<close> over the colours.\<close>

definition coverageStep ::
  "ColorData \<Rightarrow> SpectrumBucket list \<times> string list \<times> (string \<times> FamilyRange) list \<Rightarrow>
   SpectrumBucket list \<times> string list \<times> (string \<times> FamilyRange) list"
where
  "coverageStep c st =
     (let bs = fst st; fams = fst (snd st); ranges = snd (snd st);
          h = hsl_h (hsl c);
          bucketKey = real_of_int \<lfloor>h / 15\<rfloor> * 15;
          bs' = map (\<lambda>b. if hueMin b = bucketKey
                          then b\<lparr>bucketColors := bucketColors b @ [c]\<rparr> else b) bs;
          fams' = (if family c \<in> set fams then fams else fams @ [family c]);
          ranges' =
            (if family c \<in> set (map fst ranges)
             then map (\<lambda>fr. if fst fr = family c
                              then (fst fr,
                                    \<lparr>minH = min (minH (snd fr)) h, maxH = max (maxH (snd fr)) h,
                                      minS = min (minS (snd fr)) (hsl_s (hsl c)),
                                      maxS = max (maxS (snd fr)) (hsl_s (hsl c)),
                                      minL = min (minL (snd fr)) (hsl_l (hsl c)),
                                      maxL = max (maxL (snd fr)) (hsl_l (hsl c))\<rparr>)
                              else fr) ranges
             else ranges @ [(family c,
                             \<lparr>minH = h, maxH = h,
                               minS = hsl_s (hsl c), maxS = hsl_s (hsl c),
                               minL = hsl_l (hsl c), maxL = hsl_l (hsl c)\<rparr>)])
      in (bs', fams', ranges'))"

text \<open>The loop that fills \<^verbatim>\<open>density\<close> and the averages of each bucket.\<close>

definition finishBucket :: "SpectrumBucket \<Rightarrow> SpectrumBucket" where
  "finishBucket b =
     (let n = length (bucketColors b)
      in if n > 0
         then b\<lparr>density := n,
                avgSaturation := foldl (\<lambda>sum c. sum + hsl_s (hsl c)) 0 (bucketColors b) / real n,
                avgLightness := foldl (\<lambda>sum c. sum + hsl_l (hsl c)) 0 (bucketColors b) / real n\<rparr>
         else b\<lparr>density := n\<rparr>)"

definition analyzeCoverage :: "ColorData list \<Rightarrow> SpectrumCoverage" where
  "analyzeCoverage cs =
     (let st = fold coverageStep cs (initialBuckets, [], []);
          bs = map finishBucket (fst st)
      in \<lparr>buckets = bs,
          minHue = Math_min_of (map hueMin (filter (\<lambda>b. density b > 0) bs)),
          maxHue = Math_max_of (map hueMax (filter (\<lambda>b. density b > 0) bs)),
          families = fst (snd st),
          familyRanges = snd (snd st)\<rparr>)"

definition getCriticalBuckets :: "SpectrumCoverage \<Rightarrow> SpectrumBucket list" where
  "getCriticalBuckets coverage =
     (let bs = filter (\<lambda>b. density b > 0) (buckets coverage);
          avgDensity = js_div (real (foldl (\<lambda>sum b. sum + density b) 0 bs)) (real (length bs))
      in filter (\<lambda>b. js_less (Num (real (density b))) (js_mul avgDensity (Num 0.5))) bs)"

section \<open>QualityScorer\<close>

record ColorQualityMetrics =
  color :: ColorData
  uniqueness :: jsnum
  saturationQuality :: jsnum
  lightnessQuality :: real
  familyRepresentativity :: real
  overallScore :: jsnum

definition colorDistance :: "ColorData \<Rightarrow> ColorData \<Rightarrow> real" where
  "colorDistance c1 c2 =
     (let dH = min \<bar>hsl_h (hsl c1) - hsl_h (hsl c2)\<bar> (360 - \<bar>hsl_h (hsl c1) - hsl_h (hsl c2)\<bar>);
          dS = \<bar>hsl_s (hsl c1) - hsl_s (hsl c2)\<bar>;
          dL = \<bar>hsl_l (hsl c1) - hsl_l (hsl c2)\<bar>
      in sqrt ((dH / 360)\<^sup>2 * 0.4 + (dS / 100)\<^sup>2 * 0.3 + (dL / 100)\<^sup>2 * 0.3) * 100)"

definition calculateUniqueness :: "ColorData \<Rightarrow> ColorData list \<Rightarrow> jsnum" where
  "calculateUniqueness c nearbyColors =
     (if nearbyColors = [] then Num 1
      else Math_min (Num 1)
             (js_quot (Math_min_of (map (\<lambda>c'. colorDistance c c') nearbyColors)) 100))"

definition calculateSaturationQuality :: "real \<Rightarrow> real \<Rightarrow> real \<Rightarrow> jsnum" where
  "calculateSaturationQuality s sMin sMax =
     (let mid = (sMin + sMax) / 2;
          distanceFromMid = \<bar>s - mid\<bar>;
          maxDistance = max (mid - sMin) (sMax - mid)
      in Math_min (Num 1) (js_div distanceFromMid maxDistance))"

definition calculateLightnessQuality :: "real \<Rightarrow> real \<Rightarrow> real \<Rightarrow> real" where
  "calculateLightnessQuality l lMin lMax =
     (if l < lMin + 10 \<or> l > lMax - 10 then 0.3
      else if l < lMin + 20 \<or> l > lMax - 20 then 0.6
      else 1)"

definition calculateFamilyRepresentativity :: "ColorData \<Rightarrow> ColorData list \<Rightarrow> real" where
  "calculateFamilyRepresentativity c familyColors =
     (if familyColors = [] then 1
      else
        let n = real (length familyColors);
            centerH = foldl (\<lambda>sum c'. sum + hsl_h (hsl c')) 0 familyColors / n;
            centerS = foldl (\<lambda>sum c'. sum + hsl_s (hsl c')) 0 familyColors / n;
            centerL = foldl (\<lambda>sum c'. sum + hsl_l (hsl c')) 0 familyColors / n;
            distance = sqrt (((hsl_h (hsl c) - centerH) / 360)\<^sup>2 * 0.3 +
                             ((hsl_s (hsl c) - centerS) / 100)\<^sup>2 * 0.3 +
                             ((hsl_l (hsl c) - centerL) / 100)\<^sup>2 * 0.4)
        in max 0.3 (1 - distance * 2))"

text \<open>\<^verbatim>\<open>spectralRanges\<close> is \<open>{hMin, hMax, sMin, sMax, lMin, lMax}\<close>; the model passes the
  \<^verbatim>\<open>FamilyRange\<close> it is copied from.\<close>

definition scoreColor ::
  "ColorData \<Rightarrow> ColorData list \<Rightarrow> ColorData list \<Rightarrow> FamilyRange \<Rightarrow> ColorQualityMetrics"
where
  "scoreColor c nearbyColors familyColors spectralRanges =
     (let u = calculateUniqueness c nearbyColors;
          sq = calculateSaturationQuality (hsl_s (hsl c)) (minS spectralRanges) (maxS spectralRanges);
          lq = calculateLightnessQuality (hsl_l (hsl c)) (minL spectralRanges) (maxL spectralRanges);
          fr = calculateFamilyRepresentativity c familyColors
      in \<lparr>color = c, uniqueness = u, saturationQuality = sq, lightnessQuality = lq,
          familyRepresentativity = fr,
          overallScore =
            js_round (js_add (js_add (js_add (js_mul u (Num 35)) (js_mul sq (Num 25)))
                                     (Num (lq * 25)))
                             (Num (fr * 15)))\<rparr>)"


section \<open>DatasetPruner\<close>

record PruningConfig =
  targetCount :: nat
  minFamilies :: nat
  minCoverage :: real
  preserveExtremes :: bool

text \<open>\<^verbatim>\<open>Partial<PruningConfig>\<close>: every field may be absent.\<close>

record PruningOptions =
  optTargetCount :: "nat option"
  optMinFamilies :: "nat option"
  optMinCoverage :: "real option"
  optPreserveExtremes :: "bool option"

record PruningStats =
  removedCount :: int
  keptCount :: nat
  avgScoreKept :: jsnum
  avgScoreRemoved :: jsnum

record PruneResult =
  data :: "ColorData list"
  pruneStats :: PruningStats

text \<open>The comparison function \<^verbatim>\<open>(a, b) => b.overallScore - a.overallScore\<close>.\<close>

definition byScore :: "ColorQualityMetrics \<Rightarrow> ColorQualityMetrics \<Rightarrow> jsnum" where
  "byScore a b = js_sub (overallScore b) (overallScore a)"

text \<open>
  \<^verbatim>\<open>scoreAllColors\<close>: one pass of its loop scores \<open>c\<close> against the whole array \<open>cs\<close>.
  \<^verbatim>\<open>coverage.familyRanges.get(color.family)!\<close> is \<^verbatim>\<open>undefined\<close> for a family that the
  coverage does not hold, and reading \<^verbatim>\<open>minH\<close> of it throws.
\<close>

definition scoreOne ::
  "ColorData list \<Rightarrow> SpectrumCoverage \<Rightarrow> ColorData \<Rightarrow> js_error + ColorQualityMetrics"
where
  "scoreOne cs coverage c =
     (let familyColors = filter (\<lambda>c'. family c' = family c) cs;
          nearbyColors =
            filter (\<lambda>c'. hex c' \<noteq> hex c \<and>
                          min \<bar>hsl_h (hsl c') - hsl_h (hsl c)\<bar>
                              (360 - \<bar>hsl_h (hsl c') - hsl_h (hsl c)\<bar>) < 30) cs
      in case map_of (familyRanges coverage) (family c) of
           None \<Rightarrow> Inl TypeError
         | Some familyRange \<Rightarrow> Inr (scoreColor c nearbyColors familyColors familyRange))"

fun scoreLoop ::
  "ColorData list \<Rightarrow> SpectrumCoverage \<Rightarrow> ColorData list \<Rightarrow> js_error + ColorQualityMetrics list"
where
  "scoreLoop cs coverage [] = Inr []"
| "scoreLoop cs coverage (c # rest) =
     (case scoreOne cs coverage c of
        Inl e \<Rightarrow> Inl e
      | Inr m \<Rightarrow>
          (case scoreLoop cs coverage rest of
             Inl e \<Rightarrow> Inl e
           | Inr ms \<Rightarrow> Inr (m # ms)))"

definition scoreAllColors ::
  "ColorData list \<Rightarrow> SpectrumCoverage \<Rightarrow> js_error + ColorQualityMetrics list"
where
  "scoreAllColors cs coverage = scoreLoop cs coverage cs"

text \<open>
  One pass of the loop over the gap buckets in step 3 of \<^verbatim>\<open>selectOptimalColors\<close>;
  the state is \<^verbatim>\<open>final\<close>.
\<close>

definition fillGap ::
  "nat \<Rightarrow> ColorQualityMetrics list \<Rightarrow> SpectrumBucket \<Rightarrow> ColorQualityMetrics list \<Rightarrow>
   ColorQualityMetrics list"
where
  "fillGap target removed gapBucket final =
     (let candidates =
            js_sort byScore
              (filter (\<lambda>sc. hsl_h (hsl (color sc)) \<ge> hueMin gapBucket \<and>
                             hsl_h (hsl (color sc)) < hueMax gapBucket) removed)
      in case candidates of
           [] \<Rightarrow> final
         | best # _ \<Rightarrow>
             if length final < target
             then take target (js_sort byScore (final @ [best]))
             else final)"

text \<open>
  \<^verbatim>\<open>selectOptimalColors\<close>. The loop over \<^verbatim>\<open>familiesMap\<close> pushes the first
  \<^verbatim>\<open>Math.min(toTake, sorted.length)\<close> records of each sorted family; step 4 is commented
  out in the source.
\<close>

definition selectOptimalColors ::
  "ColorQualityMetrics list \<Rightarrow> PruningConfig \<Rightarrow> ColorQualityMetrics list"
where
  "selectOptimalColors scoredColors config =
     (let familiesMap =
            fold (\<lambda>scored groups. groupPush (family (color scored)) scored groups) scoredColors [];
          toTake = \<lceil>real (targetCount config) / real (length familiesMap) * 1.2\<rceil>;
          selected = concat (map (\<lambda>g. take (nat toTake) (js_sort byScore (snd g))) familiesMap);
          final0 = take (targetCount config) (js_sort byScore selected);
          finalCoverage = analyzeCoverage (map color final0);
          gapBuckets = getCriticalBuckets finalCoverage
      in if gapBuckets = [] then final0
         else
           let removed =
                 filter (\<lambda>sc. \<not> list_ex (\<lambda>f. hex (color f) = hex (color sc)) final0) scoredColors
           in fold (fillGap (targetCount config) removed)
                   (take (nat \<lceil>real (targetCount config) * 0.05\<rceil>) gapBuckets) final0)"

text \<open>
  \<^verbatim>\<open>prune(colors, targetCount, options, logger)\<close>. The options are spread over the
  defaults, so a target count among them replaces the argument. The logger is display
  only.
\<close>

definition prune ::
  "ColorData list \<Rightarrow> nat \<Rightarrow> PruningOptions \<Rightarrow> js_error + PruneResult"
where
  "prune cs target options =
     (let config =
            \<lparr>targetCount = (case optTargetCount options of None \<Rightarrow> target | Some v \<Rightarrow> v),
              minFamilies =
                (case optMinFamilies options of
                   None \<Rightarrow> max 20 (nat \<lceil>real (card (set (map family cs))) * 0.7\<rceil>)
                 | Some v \<Rightarrow> v),
              minCoverage = (case optMinCoverage options of None \<Rightarrow> 0.85 | Some v \<Rightarrow> v),
              preserveExtremes =
                (case optPreserveExtremes options of None \<Rightarrow> True | Some v \<Rightarrow> v)\<rparr>;
          originalCoverage = analyzeCoverage cs
      in case scoreAllColors cs originalCoverage of
           Inl e \<Rightarrow> Inl e
         | Inr scoredColors \<Rightarrow>
             (let selected = selectOptimalColors scoredColors config;
                  removedScores =
                    filter (\<lambda>sc. \<not> list_ex (\<lambda>s. hex (color s) = hex (color sc)) selected)
                           scoredColors
              in Inr \<lparr>data = map color selected,
                      pruneStats =
                        \<lparr>removedCount = int (length cs) - int (length selected),
                          keptCount = length selected,
                          avgScoreKept =
                            js_quot (foldl (\<lambda>sum sc. js_add sum (overallScore sc)) (Num 0) selected)
                                    (real (length selected)),
                          avgScoreRemoved =
                            js_quot (foldl (\<lambda>sum sc. js_add sum (overallScore sc)) (Num 0)
                                       removedScores)
                                    (max 1 (real_of_int (int (length scoredColors)
                                                         - int (length selected))))\<rparr>\<rparr>))"


section \<open>ASTDetector\<close>

text \<open>
  The argument of \<^verbatim>\<open>detect\<close> has type \<^verbatim>\<open>any\<close>. The model covers the values a
  deserialised dataset is made of: \<^verbatim>\<open>undefined\<close>, \<^verbatim>\<open>null\<close>, booleans, finite numbers,
  strings, arrays and plain objects. An object is the list of its own properties in
  the order of \<^verbatim>\<open>Object.keys\<close>, with distinct keys, none of which redefines a method
  of \<^verbatim>\<open>Object.prototype\<close>.
\<close>

datatype jsval =
    JUndefined | JNull | JBool bool | JNumber real | JString string
  | JArray "jsval list" | JObject "(string \<times> jsval) list"

record ASTStructure =
  ast_type :: string
  confidence :: jsnum

text \<open>Sequencing of a step that may throw.\<close>

definition thenE :: "'e + 'a \<Rightarrow> ('a \<Rightarrow> 'e + 'b) \<Rightarrow> 'e + 'b" where
  "thenE m f = (case m of Inl e \<Rightarrow> Inl e | Inr x \<Rightarrow> f x)"

text \<open>\<^verbatim>\<open>xs.every(f)\<close> and \<^verbatim>\<open>xs.some(f)\<close> for a callback that may throw: the elements are
  visited in order, up to the first that decides the result or throws.\<close>

fun everyE :: "('a \<Rightarrow> js_error + bool) \<Rightarrow> 'a list \<Rightarrow> js_error + bool" where
  "everyE f [] = Inr True"
| "everyE f (x # xs) =
     (case f x of Inl e \<Rightarrow> Inl e | Inr ok \<Rightarrow> if ok then everyE f xs else Inr False)"

fun someE :: "('a \<Rightarrow> js_error + bool) \<Rightarrow> 'a list \<Rightarrow> js_error + bool" where
  "someE f [] = Inr False"
| "someE f (x # xs) =
     (case f x of Inl e \<Rightarrow> Inl e | Inr ok \<Rightarrow> if ok then Inr True else someE f xs)"

text \<open>\<^verbatim>\<open>typeof v === 'object'\<close> (true of \<^verbatim>\<open>null\<close>), \<^verbatim>\<open>typeof v === 'string'\<close>,
  \<^verbatim>\<open>Array.isArray(v)\<close> and the truth value of \<open>v\<close> in a condition.\<close>

fun typeofObject :: "jsval \<Rightarrow> bool" where
  "typeofObject JNull = True"
| "typeofObject (JArray xs) = True"
| "typeofObject (JObject kvs) = True"
| "typeofObject v = False"

fun typeofString :: "jsval \<Rightarrow> bool" where
  "typeofString (JString str) = True"
| "typeofString v = False"

fun isArray :: "jsval \<Rightarrow> bool" where
  "isArray (JArray xs) = True"
| "isArray v = False"

fun truthy :: "jsval \<Rightarrow> bool" where
  "truthy JUndefined = False"
| "truthy JNull = False"
| "truthy (JBool b) = b"
| "truthy (JNumber r) = (r \<noteq> 0)"
| "truthy (JString str) = (str \<noteq> [])"
| "truthy v = True"

text \<open>
  \<^verbatim>\<open>String(v)\<close>. The rendering of a number is the parameter \<open>ns\<close>; an array renders
  its elements joined by commas, \<^verbatim>\<open>null\<close> and \<^verbatim>\<open>undefined\<close> among them as the empty
  string.
\<close>

fun toStr :: "(real \<Rightarrow> string) \<Rightarrow> jsval \<Rightarrow> string" where
  "toStr ns JUndefined = ''undefined''"
| "toStr ns JNull = ''null''"
| "toStr ns (JBool b) = (if b then ''true'' else ''false'')"
| "toStr ns (JNumber r) = ns r"
| "toStr ns (JString str) = str"
| "toStr ns (JArray xs) =
     join '','' (map (\<lambda>x. if x = JUndefined \<or> x = JNull then [] else toStr ns x) xs)"
| "toStr ns (JObject kvs) = ''[object Object]''"

text \<open>
  \<^verbatim>\<open>v.k\<close> on a value that is neither \<^verbatim>\<open>null\<close> nor \<^verbatim>\<open>undefined\<close>, and \<^verbatim>\<open>k in v\<close> on
  an object or array, for the keys the detector reads (\<open>name\<close>, \<open>hex\<close>, \<open>color\<close>, \<open>meta\<close>,
  \<open>family\<close>, \<open>hsl\<close>): none is a property of an array or of a primitive.
\<close>

fun getProp :: "jsval \<Rightarrow> string \<Rightarrow> jsval" where
  "getProp (JObject kvs) k = (case map_of kvs k of None \<Rightarrow> JUndefined | Some v \<Rightarrow> v)"
| "getProp v k = JUndefined"

fun hasProp :: "string \<Rightarrow> jsval \<Rightarrow> bool" where
  "hasProp k (JObject kvs) = (k \<in> set (map fst kvs))"
| "hasProp k v = False"

text \<open>\<^verbatim>\<open>/^([0-9a-f]{6})$/i\<close> and \<^verbatim>\<open>/^#?[0-9a-f]{lo,hi}$/i\<close>.\<close>

definition isHex6 :: "string \<Rightarrow> bool" where
  "isHex6 str = (length str = 6 \<and> list_all isHexDigit str)"

definition hexLike :: "nat \<Rightarrow> nat \<Rightarrow> string \<Rightarrow> bool" where
  "hexLike lo hi str =
     (let digits = (if take 1 str = ''#'' then drop 1 str else str)
      in lo \<le> length digits \<and> length digits \<le> hi \<and> list_all isHexDigit digits)"

text \<open>\<^verbatim>\<open>xs[i]\<close> on an array: \<^verbatim>\<open>undefined\<close> beyond its end.\<close>

fun elemAt :: "jsval \<Rightarrow> nat \<Rightarrow> jsval" where
  "elemAt (JArray xs) i = (if i < length xs then xs ! i else JUndefined)"
| "elemAt v i = JUndefined"

definition isIterable :: "jsval \<Rightarrow> bool" where
  "isIterable d =
     (case d of
        JArray xs \<Rightarrow> True
      | JString str \<Rightarrow> str \<noteq> []
      | JObject kvs \<Rightarrow> True
      | _ \<Rightarrow> False)"

text \<open>
  The six shape tests. \<^verbatim>\<open>Object.keys(null)\<close>, \<^verbatim>\<open>'meta' in null\<close>, \<^verbatim>\<open>'hex' in null\<close>
  and \<^verbatim>\<open>null.name\<close> throw a TypeError.
\<close>

definition isColorPaletteRecord :: "jsval \<Rightarrow> js_error + bool" where
  "isColorPaletteRecord d =
     (case d of
        JNull \<Rightarrow> Inl TypeError
      | JObject kvs \<Rightarrow>
          if kvs = [] then Inr False
          else
            let vals = map snd kvs;
                validColors =
                  filter (\<lambda>sample. typeofString (getProp sample ''name'') \<and>
                                    (case getProp sample ''hex'' of
                                       JString h \<Rightarrow> isHex6 h
                                     | _ \<Rightarrow> False)) vals
            in Inr (real (length validColors) / real (length vals) \<ge> 0.8)
      | _ \<Rightarrow> Inr False)"

definition isJsonSample :: "jsval \<Rightarrow> js_error + bool" where
  "isJsonSample sample =
     (case sample of
        JNull \<Rightarrow> Inl TypeError
      | JObject kvs \<Rightarrow>
          Inr (case (getProp sample ''name'', getProp sample ''hex'') of
                 (JString n, JString h) \<Rightarrow> length n > 0 \<and> isHex6 h
               | _ \<Rightarrow> False)
      | _ \<Rightarrow> Inr False)"

definition isJsonObjectFormat :: "jsval \<Rightarrow> js_error + bool" where
  "isJsonObjectFormat d =
     (case d of
        JNull \<Rightarrow> Inl TypeError
      | JObject kvs \<Rightarrow> if kvs = [] then Inr False else everyE isJsonSample (map snd kvs)
      | _ \<Rightarrow> Inr False)"

definition isHexStringPairs :: "(real \<Rightarrow> string) \<Rightarrow> jsval \<Rightarrow> bool" where
  "isHexStringPairs ns d =
     (case d of
        JArray items \<Rightarrow>
          list_all (\<lambda>item. case item of
                      JArray [a, b] \<Rightarrow>
                        (hexLike 3 8 (toStr ns a) \<and> typeofString b) \<or>
                        (typeofString a \<and> hexLike 3 8 (toStr ns b))
                    | _ \<Rightarrow> False) items
      | _ \<Rightarrow> False)"

definition scoreHexStringPairs :: "(real \<Rightarrow> string) \<Rightarrow> jsval list \<Rightarrow> jsnum" where
  "scoreHexStringPairs ns items =
     (let hexCount = length (filter (\<lambda>item. hexLike 6 8 (toStr ns (elemAt item 0)) \<or>
                                             hexLike 6 8 (toStr ns (elemAt item 1))) items);
          total = length items
      in js_add (Num 0.8) (js_mul (js_div (real hexCount) (real total)) (Num 0.2)))"

definition isObjectEntries :: "(real \<Rightarrow> string) \<Rightarrow> jsval \<Rightarrow> js_error + bool" where
  "isObjectEntries ns d =
     (case d of
        JNull \<Rightarrow> Inl TypeError
      | JObject kvs \<Rightarrow>
          Inr (length kvs > 0 \<and>
               list_ex (\<lambda>kv. (hexLike 6 8 (fst kv) \<and> typeofString (snd kv)) \<or>
                             hexLike 6 8 (toStr ns (snd kv))) kvs)
      | _ \<Rightarrow> Inr False)"

definition scoreObjectEntries :: "(real \<Rightarrow> string) \<Rightarrow> (string \<times> jsval) list \<Rightarrow> jsnum" where
  "scoreObjectEntries ns entries =
     (let validPairs =
            filter (\<lambda>kv. (hexLike 6 6 (fst kv) \<and> typeofString (snd kv)) \<or>
                          hexLike 6 6 (toStr ns (snd kv))) entries
      in Num (real (length validPairs) / max 1 (real (length entries))))"

definition isColorObject :: "jsval \<Rightarrow> js_error + bool" where
  "isColorObject item =
     (case item of
        JNull \<Rightarrow> Inl TypeError
      | JObject kvs \<Rightarrow> Inr (hasProp ''hex'' item \<or> hasProp ''name'' item)
      | _ \<Rightarrow> Inr False)"

definition isArrayOfObjects :: "jsval \<Rightarrow> js_error + bool" where
  "isArrayOfObjects d =
     (case d of
        JArray items \<Rightarrow> if length items > 0 then everyE isColorObject items else Inr False
      | _ \<Rightarrow> Inr False)"

definition scoreArrayOfObjects :: "jsval list \<Rightarrow> jsnum" where
  "scoreArrayOfObjects items =
     (case items of
        [] \<Rightarrow> Num 0
      | sample # _ \<Rightarrow>
          let score1 = (if hasProp ''hex'' sample then 0.4 else 0);
              score2 = score1 + (if hasProp ''name'' sample then 0.4 else 0);
              score3 = score2 + (if hasProp ''family'' sample \<or> hasProp ''hsl'' sample
                                 then 0.2 else 0)
          in Num (min score3 1))"

definition isColorArray :: "jsval \<Rightarrow> js_error + bool" where
  "isColorArray v =
     (case v of
        JArray (first # _) \<Rightarrow>
          (case first of
             JNull \<Rightarrow> Inl TypeError
           | JObject kvs \<Rightarrow> Inr (truthy (getProp first ''hex'') \<or> truthy (getProp first ''color''))
           | _ \<Rightarrow> Inr False)
      | _ \<Rightarrow> Inr False)"

definition isStructuredFormat :: "jsval \<Rightarrow> js_error + bool" where
  "isStructuredFormat d =
     (case d of
        JNull \<Rightarrow> Inl TypeError
      | JObject kvs \<Rightarrow> if hasProp ''meta'' d then someE isColorArray (map snd kvs) else Inr False
      | _ \<Rightarrow> Inr False)"

definition scoreStructuredFormat :: "(string \<times> jsval) list \<Rightarrow> jsnum" where
  "scoreStructuredFormat kvs =
     (let hasMeta = (if ''meta'' \<in> set (map fst kvs) then 0.3 else 0);
          hasColorArrays =
            length (filter (\<lambda>v. case v of JArray (first # _) \<Rightarrow> typeofObject first
                                 | _ \<Rightarrow> False) (map snd kvs))
      in Num (min (hasMeta + real hasColorArrays * 0.1) 1))"

text \<open>The entries of the object that \<^verbatim>\<open>detect\<close> passes to the scoring functions.\<close>

fun entriesOf :: "jsval \<Rightarrow> (string \<times> jsval) list" where
  "entriesOf (JObject kvs) = kvs"
| "entriesOf v = []"

fun itemsOf :: "jsval \<Rightarrow> jsval list" where
  "itemsOf (JArray xs) = xs"
| "itemsOf v = []"

text \<open>
  \<^verbatim>\<open>detect\<close>. The model keeps the type and the confidence of each candidate; the
  schema and the metadata are descriptions that take no part in the choice of
  the candidates, in their confidence or in their order, and computing them throws
  nothing.
\<close>

definition detect :: "(real \<Rightarrow> string) \<Rightarrow> jsval \<Rightarrow> js_error + ASTStructure list" where
  "detect ns d =
     (if d = JNull \<or> d = JUndefined \<or> \<not> isIterable d
      then Inr [\<lparr>ast_type = ''unknown'', confidence = Num 0\<rparr>]
      else
        thenE (isColorPaletteRecord d) (\<lambda>c1.
        thenE (isJsonObjectFormat d) (\<lambda>c2.
        thenE (isObjectEntries ns d) (\<lambda>c4.
        thenE (isArrayOfObjects d) (\<lambda>c5.
        thenE (isStructuredFormat d) (\<lambda>c6.
          let structures =
                (if c1 then [\<lparr>ast_type = ''color-palette'', confidence = Num 0.98\<rparr>] else []) @
                (if c2 then [\<lparr>ast_type = ''json'', confidence = Num 0.95\<rparr>] else []) @
                (if isHexStringPairs ns d
                 then [\<lparr>ast_type = ''pairs'',
                        confidence = scoreHexStringPairs ns (itemsOf d)\<rparr>] else []) @
                (if c4 then [\<lparr>ast_type = ''object'',
                              confidence = scoreObjectEntries ns (entriesOf d)\<rparr>] else []) @
                (if c5 then [\<lparr>ast_type = ''objects'',
                              confidence = scoreArrayOfObjects (itemsOf d)\<rparr>] else []) @
                (if c6 then [\<lparr>ast_type = ''structured'',
                              confidence = scoreStructuredFormat (entriesOf d)\<rparr>] else [])
          in Inr (js_sort (\<lambda>a b. js_sub (confidence b) (confidence a)) structures)))))))"

section \<open>Properties of sorting and grouping\<close>

text \<open>
  \<^verbatim>\<open>sort\<close> permutes its array whatever the comparison function returns; pushing
  into a map of groups adds the record to exactly one group.
\<close>

lemma mset_js_insert: "mset (js_insert cmp x ys) = add_mset x (mset ys)"
  by (induction ys) auto

lemma mset_js_sort: "mset (js_sort cmp xs) = mset xs"
  by (induction xs) (auto simp: js_sort_def mset_js_insert)

lemma length_js_sort: "length (js_sort cmp xs) = length xs"
  using mset_js_sort [of cmp xs] by (metis size_mset)

lemma set_js_sort: "set (js_sort cmp xs) = set xs"
  using mset_js_sort [of cmp xs] by (metis set_mset_mset)

lemma mset_take_subseteq: "mset (take n xs) \<subseteq># mset xs"
proof -
  have "mset (take n xs) + mset (drop n xs) = mset xs"
    by (metis append_take_drop_id mset_append)
  then show ?thesis by (metis mset_subset_eq_add_left)
qed

lemma groupPush_map_keys:
  "map fst (map (\<lambda>g. if fst g = k then (fst g, snd g @ [v]) else g) gs) = map fst gs"
  by (induction gs) auto

lemma groupPush_distinct:
  assumes "distinct (map fst gs)"
  shows "distinct (map fst (groupPush k v gs))"
proof (cases "k \<in> set (map fst gs)")
  case True
  then have eq: "groupPush k v gs = map (\<lambda>g. if fst g = k then (fst g, snd g @ [v]) else g) gs"
    by (simp add: groupPush_def)
  show ?thesis unfolding eq groupPush_map_keys by (rule assms)
next
  case False
  then have "groupPush k v gs = gs @ [(k, [v])]"
    by (simp add: groupPush_def)
  then show ?thesis using assms False by simp
qed

lemma groupPush_present:
  "distinct (map fst gs) \<Longrightarrow> k \<in> fst ` set gs \<Longrightarrow>
   mset (concat (map snd (map (\<lambda>g. if fst g = k then (fst g, snd g @ [v]) else g) gs))) =
   add_mset v (mset (concat (map snd gs)))"
proof (induction gs)
  case Nil
  then show ?case by simp
next
  case (Cons g gs)
  show ?case
  proof (cases "fst g = k")
    case True
    then have "k \<notin> fst ` set gs" using Cons.prems(1) by auto
    then have "map (\<lambda>g. if fst g = k then (fst g, snd g @ [v]) else g) gs = gs"
      by (induction gs) auto
    then show ?thesis using True by simp
  next
    case False
    then have "k \<in> fst ` set gs" using Cons.prems(2) by auto
    then show ?thesis using Cons False by simp
  qed
qed

lemma groupPush_mset:
  assumes "distinct (map fst gs)"
  shows "mset (concat (map snd (groupPush k v gs))) = add_mset v (mset (concat (map snd gs)))"
proof (cases "k \<in> set (map fst gs)")
  case True
  then have eq: "groupPush k v gs = map (\<lambda>g. if fst g = k then (fst g, snd g @ [v]) else g) gs"
    by (simp add: groupPush_def)
  have "k \<in> fst ` set gs" using True by simp
  then show ?thesis unfolding eq by (rule groupPush_present [OF assms])
next
  case False
  then have "groupPush k v gs = gs @ [(k, [v])]"
    by (simp add: groupPush_def)
  then show ?thesis by simp
qed

lemma fold_groupPush_mset:
  "distinct (map fst acc) \<Longrightarrow>
   mset (concat (map snd (fold (\<lambda>x gs. groupPush (key x) x gs) xs acc))) =
   mset xs + mset (concat (map snd acc))"
  by (induction xs arbitrary: acc) (simp_all add: groupPush_mset groupPush_distinct)

lemma family_take_subseteq:
  "mset (concat (map (\<lambda>g. take n (js_sort cmp (snd g))) fm)) \<subseteq># mset (concat (map snd fm))"
proof (induction fm)
  case Nil
  then show ?case by simp
next
  case (Cons g fm)
  have "mset (take n (js_sort cmp (snd g))) \<subseteq># mset (snd g)"
    using mset_take_subseteq [of n "js_sort cmp (snd g)"] by (simp add: mset_js_sort)
  then show ?case using Cons by (simp add: subset_mset.add_mono)
qed

text \<open>
  The groups have distinct keys, the keys are those of the records, and the group of a
  key holds the records of that key in their order. So the first \<open>n\<close> records of every
  sorted group number, in all, the sum over the keys of the lesser of \<open>n\<close> and the size of
  the group.
\<close>

lemma groupPush_keys: "set (map fst (groupPush k v gs)) = insert k (set (map fst gs))"
proof (cases "k \<in> set (map fst gs)")
  case True
  then have eq: "groupPush k v gs = map (\<lambda>g. if fst g = k then (fst g, snd g @ [v]) else g) gs"
    by (simp add: groupPush_def)
  show ?thesis unfolding eq groupPush_map_keys using True by auto
next
  case False
  then have "groupPush k v gs = gs @ [(k, [v])]"
    by (simp add: groupPush_def)
  then show ?thesis by simp
qed

lemma map_of_groupPush_present:
  "map_of (map (\<lambda>g. if fst g = k then (fst g, snd g @ [v]) else g) gs) f =
   (if f = k then map_option (\<lambda>l. l @ [v]) (map_of gs k) else map_of gs f)"
  by (induction gs) auto

lemma map_of_groupPush:
  "(case map_of (groupPush k v gs) f of None \<Rightarrow> [] | Some l \<Rightarrow> l) =
   (case map_of gs f of None \<Rightarrow> [] | Some l \<Rightarrow> l) @ (if f = k then [v] else [])"
proof (cases "k \<in> set (map fst gs)")
  case True
  then have eq: "groupPush k v gs = map (\<lambda>g. if fst g = k then (fst g, snd g @ [v]) else g) gs"
    by (simp add: groupPush_def)
  from True obtain l where "map_of gs k = Some l"
    by (metis map_of_eq_None_iff not_Some_eq set_map)
  then show ?thesis unfolding eq map_of_groupPush_present by simp
next
  case False
  then have eq: "groupPush k v gs = gs @ [(k, [v])]"
    by (simp add: groupPush_def)
  have "map_of gs k = None" using False by (simp add: map_of_eq_None_iff)
  then show ?thesis unfolding eq by (auto simp: map_add_def split: option.splits)
qed

lemma fold_groupPush_keys:
  "set (map fst (fold (\<lambda>x gs. groupPush (key x) x gs) xs acc)) =
   key ` set xs \<union> set (map fst acc)"
  by (induction xs arbitrary: acc) (simp_all add: groupPush_keys del: set_map)

lemma fold_groupPush_distinct:
  "distinct (map fst acc) \<Longrightarrow>
   distinct (map fst (fold (\<lambda>x gs. groupPush (key x) x gs) xs acc))"
  by (induction xs arbitrary: acc) (simp_all add: groupPush_distinct)

lemma fold_groupPush_lookup:
  "(case map_of (fold (\<lambda>x gs. groupPush (key x) x gs) xs acc) f of None \<Rightarrow> [] | Some l \<Rightarrow> l) =
   (case map_of acc f of None \<Rightarrow> [] | Some l \<Rightarrow> l) @ filter (\<lambda>x. key x = f) xs"
proof (induction xs arbitrary: acc)
  case Nil
  then show ?case by simp
next
  case (Cons x xs)
  show ?case
    unfolding fold_Cons comp_def Cons.IH map_of_groupPush by auto
qed

lemma fold_groupPush_group:
  assumes "g \<in> set (fold (\<lambda>x gs. groupPush (key x) x gs) xs [])"
  shows "snd g = filter (\<lambda>x. key x = fst g) xs"
proof -
  let ?fm = "fold (\<lambda>x gs. groupPush (key x) x gs) xs []"
  have d: "distinct (map fst ?fm)" by (rule fold_groupPush_distinct) simp
  have "(fst g, snd g) \<in> set ?fm" using assms by simp
  then have m: "map_of ?fm (fst g) = Some (snd g)"
    by (rule map_of_is_SomeI [OF d])
  show ?thesis
    using fold_groupPush_lookup [of key xs "[]" "fst g"] unfolding m by simp
qed

lemma step1_length:
  fixes xs :: "'a list" and key :: "'a \<Rightarrow> string"
  shows "length (concat (map (\<lambda>g. take n (js_sort cmp (snd g)))
                     (fold (\<lambda>x gs. groupPush (key x) x gs) xs []))) =
         (\<Sum>f \<in> key ` set xs. min n (length (filter (\<lambda>x. key x = f) xs)))"
proof -
  let ?fm = "fold (\<lambda>x gs. groupPush (key x) x gs) xs []"
  have d: "distinct (map fst ?fm)" by (rule fold_groupPush_distinct) simp
  have k: "set (map fst ?fm) = key ` set xs"
    using fold_groupPush_keys [of key xs "[]"] by simp
  have "length (concat (map (\<lambda>g. take n (js_sort cmp (snd g))) ?fm)) =
        sum_list (map (\<lambda>g. min n (length (snd g))) ?fm)"
    by (simp add: length_concat comp_def length_js_sort min.commute)
  also have "\<dots> = sum_list (map (\<lambda>g. min n (length (filter (\<lambda>x. key x = fst g) xs))) ?fm)"
    by (rule arg_cong [where f = sum_list], rule map_cong [OF refl])
       (simp add: fold_groupPush_group)
  also have "\<dots> = sum_list (map (\<lambda>f. min n (length (filter (\<lambda>x. key x = f) xs))) (map fst ?fm))"
    by (simp add: comp_def)
  also have "\<dots> = (\<Sum>f \<in> set (map fst ?fm). min n (length (filter (\<lambda>x. key x = f) xs)))"
    using d by (rule sum_list_distinct_conv_sum_set)
  finally show ?thesis unfolding k .
qed

section \<open>Properties of ColorMetrics\<close>

lemma isHexDigit_cases:
  "isHexDigit c \<Longrightarrow>
   c = CHR ''0'' \<or> c = CHR ''1'' \<or> c = CHR ''2'' \<or> c = CHR ''3'' \<or> c = CHR ''4'' \<or>
   c = CHR ''5'' \<or> c = CHR ''6'' \<or> c = CHR ''7'' \<or> c = CHR ''8'' \<or> c = CHR ''9'' \<or>
   c = CHR ''a'' \<or> c = CHR ''b'' \<or> c = CHR ''c'' \<or> c = CHR ''d'' \<or> c = CHR ''e'' \<or>
   c = CHR ''f'' \<or> c = CHR ''A'' \<or> c = CHR ''B'' \<or> c = CHR ''C'' \<or> c = CHR ''D'' \<or>
   c = CHR ''E'' \<or> c = CHR ''F''"
  by (simp add: isHexDigit_def)

lemma toLowerChar_hex: "isHexDigit c \<Longrightarrow> isHexLower (toLowerChar c)"
  by (drule isHexDigit_cases, elim disjE; simp add: isHexLower_def toLowerChar_def)

lemma hexDigitVal_lower: "isHexDigit c \<Longrightarrow> hexDigitVal (toLowerChar c) = hexDigitVal c"
  by (drule isHexDigit_cases, elim disjE; simp add: toLowerChar_def hexDigitVal_def)

lemma hexDigitVal_bound: "isHexDigit c \<Longrightarrow> hexDigitVal c < 16"
  by (drule isHexDigit_cases, elim disjE; simp add: hexDigitVal_def)

lemma hexDigit_not_space: "isHexDigit c \<Longrightarrow> \<not> isWhiteSpace c"
  by (drule isHexDigit_cases, elim disjE; simp add: isWhiteSpace_def)

lemma hexDigit_not_hash: "isHexDigit c \<Longrightarrow> toLowerChar c \<noteq> CHR ''#''"
  by (drule isHexDigit_cases, elim disjE; simp add: toLowerChar_def)

text \<open>
  A channel byte survives the division by 255, the rounding to three decimals, the
  multiplication by 255 and the rounding to an integer: the first rounding moves the
  value by at most 0.0005, which is 0.1275 after the multiplication.
\<close>

lemma byte_roundtrip:
  assumes "n < 256"
  shows "Math_round (round3 (if real n \<ge> 1 then real n / 255 else real n) * 255) = int n"
proof -
  let ?x = "real n / 255"
  have v: "(if real n \<ge> 1 then real n / 255 else real n) = ?x"
    by (cases n) auto
  define m where "m = \<lfloor>?x * 1000 + 1 / 2\<rfloor>"
  have lo: "real_of_int m \<le> ?x * 1000 + 1 / 2" unfolding m_def by linarith
  have hi: "?x * 1000 + 1 / 2 < real_of_int m + 1" unfolding m_def by linarith
  have r3: "round3 ?x = real_of_int m / 1000"
    by (simp add: round3_def Math_round_def m_def)
  have "real_of_int (int n) \<le> real_of_int m / 1000 * 255 + 1 / 2"
    using hi by simp
  moreover have "real_of_int m / 1000 * 255 + 1 / 2 < real_of_int (int n) + 1"
    using lo by simp
  ultimately have fl: "\<lfloor>real_of_int m / 1000 * 255 + 1 / 2\<rfloor> = int n"
    by (simp add: floor_unique)
  show ?thesis
    unfolding v r3 Math_round_def by (rule fl)
qed

text \<open>
  C7. A three-digit colour with a leading \<open>#\<close> is not expanded: the argument
  \<open>#fff\<close> has length 4, the expansion is skipped, and the three-character
  \<^verbatim>\<open>normalized\<close> falls to the default of the switch, which returns \<open>[0, 0, 0, 1]\<close>.
  Without the \<open>#\<close> the same digits are expanded and give the result of \<open>ffffff\<close>.
\<close>

theorem hexToRgb_hash_short_not_expanded:
  "hexToRgb ''#fff'' = [0, 0, 0, 1] \<and>
   hexToRgb ''ffffff'' = [1, 1, 1, 0.004] \<and>
   hexToRgb ''fff'' = [1, 1, 1, 0.004]"
  by (simp add: hexToRgb_def toLowerCase_def trim_def isWhiteSpace_def hexPattern_def
      isHexLower_def toLowerChar_def Let_def parseInt16_def hexDigitVal_def normalizeRgb_def
      round3_def Math_round_def)

text \<open>
  C8. For a colour of six hexadecimal digits \<open>ds\<close> (either case), written with or without
  a leading \<open>#\<close>, each of the first three components of \<^verbatim>\<open>hexToRgb\<close>, multiplied by 255
  and rounded to the nearest integer, is the channel byte that the two digits denote.
\<close>

theorem hexToRgb_near_roundtrip:
  assumes len: "length ds = 6" and dig: "list_all isHexDigit ds"
    and hx: "hx = ds \<or> hx = CHR ''#'' # ds"
  shows "map (\<lambda>v. Math_round (v * 255)) (take 3 (hexToRgb hx)) =
         [int (parseInt16 (take 2 ds)), int (parseInt16 (take 2 (drop 2 ds))),
          int (parseInt16 (take 2 (drop 4 ds)))]"
proof -
  obtain a b c d e f where ds: "ds = [a, b, c, d, e, f]"
    using len by (auto simp: length_Suc_conv numeral_eq_Suc)
  have digs: "isHexDigit a" "isHexDigit b" "isHexDigit c"
    "isHexDigit d" "isHexDigit e" "isHexDigit f"
    using dig by (simp_all add: ds)
  have tr: "trim ds = ds" "trim (CHR ''#'' # ds) = CHR ''#'' # ds"
    using digs by (simp_all add: trim_def ds hexDigit_not_space) (simp_all add: isWhiteSpace_def)
  have nohash: "take 1 (toLowerCase ds) \<noteq> ''#''"
    using digs by (simp add: toLowerCase_def ds hexDigit_not_hash)
  have hash: "toLowerCase (CHR ''#'' # ds) = CHR ''#'' # toLowerCase ds"
    by (simp add: toLowerCase_def toLowerChar_def)
  have norm1: "(if take 1 (toLowerCase (trim hx)) = ''#'' then drop 1 (toLowerCase (trim hx))
                else toLowerCase (trim hx)) = toLowerCase ds"
  proof (cases "hx = ds")
    case True
    then show ?thesis using nohash by (simp add: tr)
  next
    case False
    then have "hx = CHR ''#'' # ds" using hx by simp
    then show ?thesis by (simp add: tr hash)
  qed
  have pat: "hexPattern (toLowerCase ds)"
    using digs by (simp add: hexPattern_def toLowerCase_def ds toLowerChar_hex)
  have len3: "length hx \<noteq> 3" using hx by (auto simp: ds)
  have bytes: "parseInt16 [toLowerChar x, toLowerChar y] = parseInt16 [x, y]"
    "parseInt16 [x, y] < 256"
    if "isHexDigit x" "isHexDigit y" for x y
    using that hexDigitVal_bound[of x] hexDigitVal_bound[of y]
    by (simp_all add: parseInt16_def hexDigitVal_lower)
  show ?thesis
    unfolding hexToRgb_def Let_def norm1
    using pat len3 digs byte_roundtrip bytes
    by (simp add: toLowerCase_def ds normalizeRgb_def)
qed

theorem hexToRgb_near_roundtrip_witness:
  "map (\<lambda>v. Math_round (v * 255)) (take 3 (hexToRgb ''#FFaa01'')) = [255, 170, 1]"
proof -
  have len: "length ''FFaa01'' = 6" by simp
  have dig: "list_all isHexDigit ''FFaa01''" by (simp add: isHexDigit_def)
  have hx: "''#FFaa01'' = ''FFaa01'' \<or> ''#FFaa01'' = CHR ''#'' # ''FFaa01''" by simp
  have bytes: "parseInt16 ''FF'' = 255" "parseInt16 ''aa'' = 170" "parseInt16 ''01'' = 1"
    by (simp_all add: parseInt16_def hexDigitVal_def)
  have tk: "take 2 ''FFaa01'' = ''FF''" "take 2 (drop 2 ''FFaa01'') = ''aa''"
    "take 2 (drop 4 ''FFaa01'') = ''01''"
    by simp_all
  show ?thesis
    unfolding hexToRgb_near_roundtrip [OF len dig hx] tk bytes by simp
qed


text \<open>
  C9, as the specification states it, fails: the bounds are rounded to one decimal, so
  for the hue 10.25 and saturation 1 the band is \<open>[9.3, 11.3]\<close> and not
  \<open>[9.25, 11.25]\<close>.
\<close>

theorem calculateHueRange_band_counterexample:
  "calculateHueRange \<lparr>hsl_h = 41 / 4, hsl_s = 1, hsl_l = 1 / 2\<rparr> = (93 / 10, 113 / 10) \<and>
   ((93 / 10, 113 / 10) :: real \<times> real) \<noteq> (max 0 (41 / 4 - 1), min 360 (41 / 4 + 1))"
  by (simp add: calculateHueRange_def Let_def round1_def Math_round_def)

text \<open>
  A bound rounded to one decimal is a multiple of 0.1 at most 0.05 away.
\<close>

lemma round1_near:
  "\<exists>m :: int. round1 x = real_of_int m / 10 \<and> \<bar>real_of_int m / 10 - x\<bar> \<le> 1 / 20"
proof -
  define m where "m = \<lfloor>x * 10 + 1 / 2\<rfloor>"
  have lo: "real_of_int m \<le> x * 10 + 1 / 2" unfolding m_def by linarith
  have hi: "x * 10 + 1 / 2 < real_of_int m + 1" unfolding m_def by linarith
  have "round1 x = real_of_int m / 10"
    by (simp add: round1_def Math_round_def m_def)
  moreover have "\<bar>real_of_int m / 10 - x\<bar> \<le> 1 / 20"
    using lo hi by (intro abs_leI) linarith+
  ultimately show ?thesis by blast
qed

text \<open>
  C9, amended. For a hue in \<open>[0, 360)\<close>: a saturation below 0.05 gives \<open>[0, 360]\<close>; the
  saturation 1 gives the band \<open>[h - 1, h + 1]\<close> clamped to \<open>[0, 360]\<close> with each bound
  rounded to one decimal: both bounds are multiples of 0.1, each within 0.05 of the clamped
  bound (stated with a slack of \<open>10\<^sup>-\<^sup>9\<close>, which covers the rounding error of double
  arithmetic at a tie), and the band is the clamped \<open>[h - 1, h + 1]\<close> itself when the hue
  is a multiple of 0.1.
\<close>

theorem calculateHueRange_extremes:
  assumes "0 \<le> hsl_h c" and "hsl_h c < 360"
  shows "(hsl_s c < 0.05 \<longrightarrow> calculateHueRange c = (0, 360)) \<and>
         (hsl_s c = 1 \<longrightarrow>
            (\<exists>m n :: int.
               calculateHueRange c = (real_of_int m / 10, real_of_int n / 10) \<and>
               \<bar>real_of_int m / 10 - max 0 (hsl_h c - 1)\<bar> \<le> 0.05 + 1 / 10 ^ 9 \<and>
               \<bar>real_of_int n / 10 - min 360 (hsl_h c + 1)\<bar> \<le> 0.05 + 1 / 10 ^ 9) \<and>
            (real_of_int \<lfloor>hsl_h c * 10\<rfloor> = hsl_h c * 10 \<longrightarrow>
               calculateHueRange c = (max 0 (hsl_h c - 1), min 360 (hsl_h c + 1))))"
proof -
  have r: "round1 x = x" if "real_of_int \<lfloor>x * 10\<rfloor> = x * 10" for x
  proof -
    have "\<lfloor>x * 10 + 1 / 2\<rfloor> = \<lfloor>x * 10\<rfloor>"
      by (subst that[symmetric]) linarith
    then show ?thesis using that by (simp add: round1_def Math_round_def)
  qed
  have r0: "round1 0 = 0" "round1 360 = 360"
    by (simp_all add: round1_def Math_round_def)
  have tenth: "real_of_int \<lfloor>(x + d) * 10\<rfloor> = (x + d) * 10"
    if "real_of_int \<lfloor>x * 10\<rfloor> = x * 10" and "d = 1 \<or> d = - 1" for x d :: real
  proof -
    have "(x + d) * 10 = real_of_int (\<lfloor>x * 10\<rfloor> + \<lfloor>d * 10\<rfloor>)"
      using that by auto
    then show ?thesis by (metis floor_of_int)
  qed
  have short: "hsl_s c = 1 \<Longrightarrow>
      calculateHueRange c = (round1 (max 0 (hsl_h c - 1)), round1 (min 360 (hsl_h c + 1)))"
    using assms by (auto simp: calculateHueRange_def Let_def max_def min_def)
  have exact: "round1 (max 0 (hsl_h c - 1)) = max 0 (hsl_h c - 1) \<and>
               round1 (min 360 (hsl_h c + 1)) = min 360 (hsl_h c + 1)"
    if t: "real_of_int \<lfloor>hsl_h c * 10\<rfloor> = hsl_h c * 10"
    using r[OF tenth[OF t, of 1]] r[OF tenth[OF t, of "- 1"]] r0
    by (auto simp: max_def min_def)
  have near: "\<exists>m n :: int.
      (round1 (max 0 (hsl_h c - 1)), round1 (min 360 (hsl_h c + 1))) =
        (real_of_int m / 10, real_of_int n / 10) \<and>
      \<bar>real_of_int m / 10 - max 0 (hsl_h c - 1)\<bar> \<le> 0.05 + 1 / 10 ^ 9 \<and>
      \<bar>real_of_int n / 10 - min 360 (hsl_h c + 1)\<bar> \<le> 0.05 + 1 / 10 ^ 9"
  proof -
    obtain m :: int where m: "round1 (max 0 (hsl_h c - 1)) = real_of_int m / 10"
      "\<bar>real_of_int m / 10 - max 0 (hsl_h c - 1)\<bar> \<le> 1 / 20"
      using round1_near by blast
    obtain n :: int where n: "round1 (min 360 (hsl_h c + 1)) = real_of_int n / 10"
      "\<bar>real_of_int n / 10 - min 360 (hsl_h c + 1)\<bar> \<le> 1 / 20"
      using round1_near by blast
    have "\<bar>real_of_int m / 10 - max 0 (hsl_h c - 1)\<bar> \<le> 0.05 + 1 / 10 ^ 9"
      using m(2) by simp
    moreover have "\<bar>real_of_int n / 10 - min 360 (hsl_h c + 1)\<bar> \<le> 0.05 + 1 / 10 ^ 9"
      using n(2) by simp
    ultimately show ?thesis using m(1) n(1) by auto
  qed
  show ?thesis
  proof (intro conjI impI)
    assume "hsl_s c < 0.05"
    then show "calculateHueRange c = (0, 360)" by (simp add: calculateHueRange_def)
  next
    assume s: "hsl_s c = 1"
    show "\<exists>m n :: int.
               calculateHueRange c = (real_of_int m / 10, real_of_int n / 10) \<and>
               \<bar>real_of_int m / 10 - max 0 (hsl_h c - 1)\<bar> \<le> 0.05 + 1 / 10 ^ 9 \<and>
               \<bar>real_of_int n / 10 - min 360 (hsl_h c + 1)\<bar> \<le> 0.05 + 1 / 10 ^ 9"
      using near unfolding short [OF s] .
  next
    assume s: "hsl_s c = 1" and t: "real_of_int \<lfloor>hsl_h c * 10\<rfloor> = hsl_h c * 10"
    show "calculateHueRange c = (max 0 (hsl_h c - 1), min 360 (hsl_h c + 1))"
      using exact [OF t] by (simp add: short [OF s])
  qed
qed

theorem calculateHueRange_extremes_witness:
  "calculateHueRange \<lparr>hsl_h = 120, hsl_s = 1, hsl_l = 1 / 2\<rparr> = (119, 121) \<and>
   calculateHueRange \<lparr>hsl_h = 359.5, hsl_s = 1, hsl_l = 1 / 2\<rparr> = (358.5, 360) \<and>
   calculateHueRange \<lparr>hsl_h = 120, hsl_s = 0, hsl_l = 1 / 2\<rparr> = (0, 360)"
  using calculateHueRange_extremes [of "\<lparr>hsl_h = 120, hsl_s = 1, hsl_l = 1 / 2\<rparr>"]
    calculateHueRange_extremes [of "\<lparr>hsl_h = 359.5, hsl_s = 1, hsl_l = 1 / 2\<rparr>"]
    calculateHueRange_extremes [of "\<lparr>hsl_h = 120, hsl_s = 0, hsl_l = 1 / 2\<rparr>"]
  by simp

text \<open>
  C10. \<^verbatim>\<open>getColorFamily\<close> never returns the family \<open>earth\<close>: the branch that returns it
  sits under \<open>s < 0.5\<close> and \<open>l < 0.7\<close>, where the test \<open>s < 0.6\<close> and \<open>l < 0.7\<close> before it
  always succeeds and returns \<open>brown\<close>.
\<close>

theorem getColorFamily_never_earth: "getColorFamily h sOpt lOpt \<noteq> Earth"
  by (auto simp: getColorFamily_def Let_def baseFamilyOf_def split: option.splits)

section \<open>Properties of StringMetrics\<close>

text \<open>The reference distance of a string to itself is 0.\<close>

lemma osa_distance_same: "osa_distance xs xs = 0"
  by (induction xs rule: induct_list012) simp_all

text \<open>
  C3. \<^verbatim>\<open>damerauLevenshtein\<close> is not the restricted Damerau-Levenshtein distance. The
  cost of the comparison is added to the deletion term \<^verbatim>\<open>H[i][j + 1]\<close> and the diagonal
  term \<^verbatim>\<open>H[i][j]\<close> always pays 1, so a string is at distance 1 from itself (\<open>a\<close>),
  or 3 (\<open>abc\<close>), and \<open>kitten\<close> is at distance 6 from \<open>sitting\<close>, where the distance of
  the specification is 0, 0 and 3.
\<close>

theorem damerauLevenshtein_not_restricted_distance:
  "damerauLevenshtein ''a'' ''a'' = 1 \<and> osa_distance ''a'' ''a'' = 0 \<and>
   damerauLevenshtein ''abc'' ''abc'' = 3 \<and> osa_distance ''abc'' ''abc'' = 0 \<and>
   damerauLevenshtein ''kitten'' ''sitting'' = 6"
  by code_simp

section \<open>Properties of SemanticDeduplicator\<close>

text \<open>
  C2. Two records with different hex values, one unnamed and one named \<open>Red\<close>: no hex
  and no non-empty name is shared, yet \<^verbatim>\<open>deduplicate\<close> returns the named record alone.
  The unnamed record is skipped when the name groups are filled and the result is
  built from the name groups only.
\<close>

theorem deduplicate_drops_unnamed:
  "deduplicate sem
     [\<lparr>oid = 0, hex = ''#111111'', name = [], family = ''gray'', hueRange = (0, 360),
        rgb = [0.067, 0.067, 0.067], hsl = \<lparr>hsl_h = 0, hsl_s = 0, hsl_l = 7\<rparr>\<rparr>,
      \<lparr>oid = 1, hex = ''#ff0000'', name = ''Red'', family = ''red'', hueRange = (0, 1),
        rgb = [1, 0, 0], hsl = \<lparr>hsl_h = 0, hsl_s = 100, hsl_l = 50\<rparr>\<rparr>] []
   = Inr \<lparr>colors =
            [\<lparr>oid = 1, hex = ''#ff0000'', name = ''Red'', family = ''red'', hueRange = (0, 1),
               rgb = [1, 0, 0], hsl = \<lparr>hsl_h = 0, hsl_s = 100, hsl_l = 50\<rparr>\<rparr>],
          stats = []\<rparr>"
  by (simp add: deduplicate_def groupPush_def toLowerCase_def toLowerChar_def Let_def)

section \<open>Properties of QualityScorer\<close>

text \<open>
  C4. A colour scored against a range whose \<^verbatim>\<open>sMin\<close> and \<^verbatim>\<open>sMax\<close> both equal its own
  saturation (the range of a family of one colour): the saturation quality is \<open>0 / 0\<close>,
  that is NaN, and so is the overall score. The two guards for an empty list of
  neighbours and an empty family return 1; the division by the width of the range
  has no guard.
\<close>

theorem scoreColor_flat_saturation_range_nan:
  "saturationQuality
     (scoreColor
        \<lparr>oid = 0, hex = ''#0000ff'', name = ''Blue'', family = ''blue'', hueRange = (239, 241),
          rgb = [0, 0, 1], hsl = \<lparr>hsl_h = 240, hsl_s = 100, hsl_l = 50\<rparr>\<rparr>
        []
        [\<lparr>oid = 0, hex = ''#0000ff'', name = ''Blue'', family = ''blue'', hueRange = (239, 241),
           rgb = [0, 0, 1], hsl = \<lparr>hsl_h = 240, hsl_s = 100, hsl_l = 50\<rparr>\<rparr>]
        \<lparr>minH = 240, maxH = 240, minS = 100, maxS = 100, minL = 50, maxL = 50\<rparr>) = NaN \<and>
   overallScore
     (scoreColor
        \<lparr>oid = 0, hex = ''#0000ff'', name = ''Blue'', family = ''blue'', hueRange = (239, 241),
          rgb = [0, 0, 1], hsl = \<lparr>hsl_h = 240, hsl_s = 100, hsl_l = 50\<rparr>\<rparr>
        []
        [\<lparr>oid = 0, hex = ''#0000ff'', name = ''Blue'', family = ''blue'', hueRange = (239, 241),
           rgb = [0, 0, 1], hsl = \<lparr>hsl_h = 240, hsl_s = 100, hsl_l = 50\<rparr>\<rparr>]
        \<lparr>minH = 240, maxH = 240, minS = 100, maxS = 100, minL = 50, maxL = 50\<rparr>) = NaN"
  by (simp add: scoreColor_def calculateSaturationQuality_def Let_def js_div_def Math_min_def
      calculateUniqueness_def)

section \<open>Properties of ASTDetector\<close>

text \<open>
  C6. For the empty array every shape test but the one for hex-string pairs fails;
  that one holds of no pair at all, and its score is \<open>0.8 + (0 / 0) * 0.2\<close>: the single
  candidate has the confidence NaN. The scores of the object entries and of the array
  of objects guard their division; this one does not.
\<close>

theorem detect_empty_array_confidence_nan:
  "detect ns (JArray []) = Inr [\<lparr>ast_type = ''pairs'', confidence = NaN\<rparr>]"
  by (simp add: detect_def isIterable_def thenE_def isColorPaletteRecord_def
      isJsonObjectFormat_def isObjectEntries_def isArrayOfObjects_def isStructuredFormat_def
      isHexStringPairs_def js_sort_def scoreHexStringPairs_def js_div_def)

text \<open>
  C5, as the specification states it, fails: for the empty object, which is iterable,
  no shape test succeeds and \<^verbatim>\<open>detect\<close> returns the empty list, without an
  \<open>unknown\<close> candidate.
\<close>

theorem detect_empty_object_counterexample:
  "detect (showInt \<circ> floor) (JObject []) = Inr []"
  by (simp add: detect_def isIterable_def thenE_def isColorPaletteRecord_def
      isJsonObjectFormat_def isObjectEntries_def isArrayOfObjects_def isStructuredFormat_def
      isHexStringPairs_def js_sort_def)


lemma detect_not_iterable:
  "\<not> isIterable d \<Longrightarrow> detect ns d = Inr [\<lparr>ast_type = ''unknown'', confidence = Num 0\<rparr>]"
  by (simp add: detect_def)

lemma isIterable_not_null: "isIterable d \<Longrightarrow> d \<noteq> JNull \<and> d \<noteq> JUndefined"
  by (auto simp: isIterable_def)

lemma detect_iterable:
  assumes it: "isIterable d" and ret: "detect ns d = Inr cs"
  shows "mset cs =
           mset
            ((if isColorPaletteRecord d = Inr True
              then [\<lparr>ast_type = ''color-palette'', confidence = Num 0.98\<rparr>] else []) @
             (if isJsonObjectFormat d = Inr True
              then [\<lparr>ast_type = ''json'', confidence = Num 0.95\<rparr>] else []) @
             (if isHexStringPairs ns d
              then [\<lparr>ast_type = ''pairs'',
                     confidence = scoreHexStringPairs ns (itemsOf d)\<rparr>] else []) @
             (if isObjectEntries ns d = Inr True
              then [\<lparr>ast_type = ''object'',
                     confidence = scoreObjectEntries ns (entriesOf d)\<rparr>] else []) @
             (if isArrayOfObjects d = Inr True
              then [\<lparr>ast_type = ''objects'',
                     confidence = scoreArrayOfObjects (itemsOf d)\<rparr>] else []) @
             (if isStructuredFormat d = Inr True
              then [\<lparr>ast_type = ''structured'',
                     confidence = scoreStructuredFormat (entriesOf d)\<rparr>] else []))"
proof -
  from ret it obtain c1 c2 c4 c5 c6 where
    c: "isColorPaletteRecord d = Inr c1" "isJsonObjectFormat d = Inr c2"
       "isObjectEntries ns d = Inr c4" "isArrayOfObjects d = Inr c5"
       "isStructuredFormat d = Inr c6"
    using isIterable_not_null [OF it]
    by (auto simp: detect_def thenE_def split: sum.splits)
  define structures where "structures =
     (if c1 then [\<lparr>ast_type = ''color-palette'', confidence = Num 0.98\<rparr>] else []) @
     (if c2 then [\<lparr>ast_type = ''json'', confidence = Num 0.95\<rparr>] else []) @
     (if isHexStringPairs ns d
      then [\<lparr>ast_type = ''pairs'', confidence = scoreHexStringPairs ns (itemsOf d)\<rparr>] else []) @
     (if c4 then [\<lparr>ast_type = ''object'',
                   confidence = scoreObjectEntries ns (entriesOf d)\<rparr>] else []) @
     (if c5 then [\<lparr>ast_type = ''objects'',
                   confidence = scoreArrayOfObjects (itemsOf d)\<rparr>] else []) @
     (if c6 then [\<lparr>ast_type = ''structured'',
                   confidence = scoreStructuredFormat (entriesOf d)\<rparr>] else [])"
  have cs: "cs = js_sort (\<lambda>a b. js_sub (confidence b) (confidence a)) structures"
    using ret it isIterable_not_null [OF it]
    by (simp add: detect_def thenE_def c structures_def)
  show ?thesis
    unfolding cs mset_js_sort c structures_def by simp
qed

text \<open>
  C5, amended. For an input that is not iterable (\<^verbatim>\<open>null\<close>, \<^verbatim>\<open>undefined\<close>, a number,
  a boolean, the empty string) \<^verbatim>\<open>detect\<close> returns the single candidate \<open>unknown\<close> with
  confidence 0. For an iterable input, whenever \<^verbatim>\<open>detect\<close> returns, the result is, up to
  the order of the sort, the list of one candidate for each shape test that succeeds, with
  the type and the confidence of that test: \<open>color-palette\<close> with 0.98, \<open>json\<close> with 0.95,
  \<open>pairs\<close>, \<open>object\<close>, \<open>objects\<close> and \<open>structured\<close> with their scores. It holds no
  \<open>unknown\<close> candidate, and it is empty exactly when every test fails.
\<close>

theorem detect_unknown_only_when_not_iterable:
  "(\<not> isIterable d \<longrightarrow>
      detect ns d = Inr [\<lparr>ast_type = ''unknown'', confidence = Num 0\<rparr>]) \<and>
   (isIterable d \<longrightarrow> detect ns d = Inr cs \<longrightarrow>
      mset cs =
        mset
         ((if isColorPaletteRecord d = Inr True
           then [\<lparr>ast_type = ''color-palette'', confidence = Num 0.98\<rparr>] else []) @
          (if isJsonObjectFormat d = Inr True
           then [\<lparr>ast_type = ''json'', confidence = Num 0.95\<rparr>] else []) @
          (if isHexStringPairs ns d
           then [\<lparr>ast_type = ''pairs'',
                  confidence = scoreHexStringPairs ns (itemsOf d)\<rparr>] else []) @
          (if isObjectEntries ns d = Inr True
           then [\<lparr>ast_type = ''object'',
                  confidence = scoreObjectEntries ns (entriesOf d)\<rparr>] else []) @
          (if isArrayOfObjects d = Inr True
           then [\<lparr>ast_type = ''objects'',
                  confidence = scoreArrayOfObjects (itemsOf d)\<rparr>] else []) @
          (if isStructuredFormat d = Inr True
           then [\<lparr>ast_type = ''structured'',
                  confidence = scoreStructuredFormat (entriesOf d)\<rparr>] else [])) \<and>
      \<not> list_ex (\<lambda>c. ast_type c = ''unknown'') cs \<and>
      (cs = []) =
        (isColorPaletteRecord d = Inr False \<and> isJsonObjectFormat d = Inr False \<and>
         \<not> isHexStringPairs ns d \<and> isObjectEntries ns d = Inr False \<and>
         isArrayOfObjects d = Inr False \<and> isStructuredFormat d = Inr False))"
proof (intro conjI impI)
  assume "\<not> isIterable d"
  then show "detect ns d = Inr [\<lparr>ast_type = ''unknown'', confidence = Num 0\<rparr>]"
    by (rule detect_not_iterable)
next
  assume it: "isIterable d" and ret: "detect ns d = Inr cs"
  note m = detect_iterable [OF it ret]
  from ret it obtain c1 c2 c4 c5 c6 where
    c: "isColorPaletteRecord d = Inr c1" "isJsonObjectFormat d = Inr c2"
       "isObjectEntries ns d = Inr c4" "isArrayOfObjects d = Inr c5"
       "isStructuredFormat d = Inr c6"
    using isIterable_not_null [OF it]
    by (auto simp: detect_def thenE_def split: sum.splits)
  show "mset cs = mset
         ((if isColorPaletteRecord d = Inr True
           then [\<lparr>ast_type = ''color-palette'', confidence = Num 0.98\<rparr>] else []) @
          (if isJsonObjectFormat d = Inr True
           then [\<lparr>ast_type = ''json'', confidence = Num 0.95\<rparr>] else []) @
          (if isHexStringPairs ns d
           then [\<lparr>ast_type = ''pairs'',
                  confidence = scoreHexStringPairs ns (itemsOf d)\<rparr>] else []) @
          (if isObjectEntries ns d = Inr True
           then [\<lparr>ast_type = ''object'',
                  confidence = scoreObjectEntries ns (entriesOf d)\<rparr>] else []) @
          (if isArrayOfObjects d = Inr True
           then [\<lparr>ast_type = ''objects'',
                  confidence = scoreArrayOfObjects (itemsOf d)\<rparr>] else []) @
          (if isStructuredFormat d = Inr True
           then [\<lparr>ast_type = ''structured'',
                  confidence = scoreStructuredFormat (entriesOf d)\<rparr>] else []))"
    by (rule m)
  have "\<forall>s \<in> set_mset (mset cs). ast_type s \<noteq> ''unknown''"
    unfolding m by (auto split: if_splits)
  then show "\<not> list_ex (\<lambda>c. ast_type c = ''unknown'') cs"
    by (simp add: list_ex_iff)
  have "(cs = []) = (mset cs = {#})" by simp
  also have "\<dots> = (isColorPaletteRecord d = Inr False \<and> isJsonObjectFormat d = Inr False \<and>
         \<not> isHexStringPairs ns d \<and> isObjectEntries ns d = Inr False \<and>
         isArrayOfObjects d = Inr False \<and> isStructuredFormat d = Inr False)"
    unfolding m c by (cases c1; cases c2; cases c4; cases c5; cases c6) simp_all
  finally show "(cs = []) =
        (isColorPaletteRecord d = Inr False \<and> isJsonObjectFormat d = Inr False \<and>
         \<not> isHexStringPairs ns d \<and> isObjectEntries ns d = Inr False \<and>
         isArrayOfObjects d = Inr False \<and> isStructuredFormat d = Inr False)" .
qed

theorem detect_unknown_only_when_not_iterable_witness:
  "\<not> isIterable (JNumber 3) \<and>
   detect (showInt \<circ> floor) (JNumber 3) = Inr [\<lparr>ast_type = ''unknown'', confidence = Num 0\<rparr>] \<and>
   isIterable (JObject [(''#ff0000'', JString ''Red'')]) \<and>
   detect (showInt \<circ> floor) (JObject [(''#ff0000'', JString ''Red'')]) =
     Inr [\<lparr>ast_type = ''object'', confidence = Num 1\<rparr>] \<and>
   mset [\<lparr>ast_type = ''object'', confidence = Num 1\<rparr>] =
     mset [\<lparr>ast_type = ''object'',
            confidence = scoreObjectEntries (showInt \<circ> floor) [(''#ff0000'', JString ''Red'')]\<rparr>] \<and>
   \<not> list_ex (\<lambda>c. ast_type c = ''unknown'') [\<lparr>ast_type = ''object'', confidence = Num 1\<rparr>]"
proof -
  let ?d = "JObject [(''#ff0000'', JString ''Red'')]"
  have n: "\<not> isIterable (JNumber 3)" by (simp add: isIterable_def)
  have i: "isIterable ?d" by (simp add: isIterable_def)
  have tests: "isColorPaletteRecord ?d = Inr False" "isJsonObjectFormat ?d = Inr False"
    "\<not> isHexStringPairs (showInt \<circ> floor) ?d"
    "isObjectEntries (showInt \<circ> floor) ?d = Inr True"
    "isArrayOfObjects ?d = Inr False" "isStructuredFormat ?d = Inr False"
    by (simp_all add: isColorPaletteRecord_def isJsonObjectFormat_def isJsonSample_def
        isObjectEntries_def isArrayOfObjects_def isStructuredFormat_def isHexStringPairs_def
        hexLike_def isHexDigit_def isHex6_def Let_def)
  have d: "detect (showInt \<circ> floor) ?d = Inr [\<lparr>ast_type = ''object'', confidence = Num 1\<rparr>]"
    by (simp add: detect_def isIterable_def thenE_def tests js_sort_def scoreObjectEntries_def
        hexLike_def isHexDigit_def Let_def)
  show ?thesis
    using detect_unknown_only_when_not_iterable [of "JNumber 3" "showInt \<circ> floor"]
      detect_unknown_only_when_not_iterable [of ?d "showInt \<circ> floor"
        "[\<lparr>ast_type = ''object'', confidence = Num 1\<rparr>]"]
      n i d
    by (simp add: tests)
qed

section \<open>Properties of SpectrumAnalyzer\<close>

text \<open>
  The hue bounds of the 24 buckets do not depend on the colours: each bucket ends where
  the next one starts, so the buckets that \<^verbatim>\<open>getCriticalBuckets\<close> returns cover
  disjoint ranges of hue, in increasing order.
\<close>

lemma coverageStep_bounds:
  "map (\<lambda>b. (hueMin b, hueMax b)) (fst (coverageStep c st)) =
   map (\<lambda>b. (hueMin b, hueMax b)) (fst st)"
  by (simp add: coverageStep_def Let_def comp_def)

lemma fold_coverageStep_bounds:
  "map (\<lambda>b. (hueMin b, hueMax b)) (fst (fold coverageStep cs st)) =
   map (\<lambda>b. (hueMin b, hueMax b)) (fst st)"
  by (induction cs arbitrary: st) (simp_all add: coverageStep_bounds)

lemma finishBucket_bounds:
  "hueMin (finishBucket b) = hueMin b \<and> hueMax (finishBucket b) = hueMax b"
  by (simp add: finishBucket_def Let_def)

lemma analyzeCoverage_bounds:
  "map (\<lambda>b. (hueMin b, hueMax b)) (buckets (analyzeCoverage cs)) =
   map (\<lambda>b. (hueMin b, hueMax b)) initialBuckets"
proof -
  have "map (\<lambda>b. (hueMin b, hueMax b)) (map finishBucket bs) =
        map (\<lambda>b. (hueMin b, hueMax b)) bs" for bs
    by (induction bs) (simp_all add: finishBucket_bounds)
  then show ?thesis
    by (simp add: analyzeCoverage_def Let_def fold_coverageStep_bounds del: map_map)
qed

lemma sorted_wrt_bounds:
  "sorted_wrt (\<lambda>b b'. hueMax b \<le> hueMin b') bs =
   sorted_wrt (\<lambda>p q. snd p \<le> fst q) (map (\<lambda>b. (hueMin b, hueMax b)) bs)"
  by (simp add: sorted_wrt_map)

lemma initialBuckets_apart: "sorted_wrt (\<lambda>b b'. hueMax b \<le> hueMin b') initialBuckets"
proof -
  have "sorted_wrt (\<lambda>i j. real (15 * i) + 15 \<le> real (15 * j)) [0 ..< 24]"
    by (rule sorted_wrt_mono_rel [OF _ sorted_wrt_upt]) auto
  then show ?thesis
    by (simp add: initialBuckets_def sorted_wrt_map)
qed

lemma analyzeCoverage_apart:
  "sorted_wrt (\<lambda>b b'. hueMax b \<le> hueMin b') (buckets (analyzeCoverage cs))"
  using initialBuckets_apart
  by (simp only: sorted_wrt_bounds analyzeCoverage_bounds)

lemma getCriticalBuckets_apart:
  "sorted_wrt (\<lambda>b b'. hueMax b \<le> hueMin b') (getCriticalBuckets (analyzeCoverage cs))"
  by (simp add: getCriticalBuckets_def Let_def sorted_wrt_filter analyzeCoverage_apart)

text \<open>Every family of the input has a range in the coverage.\<close>

lemma coverageStep_families:
  "set (map fst (snd (snd (coverageStep c st)))) = insert (family c) (set (map fst (snd (snd st))))"
proof -
  have keep: "map fst (map (\<lambda>fr. if fst fr = k then (fst fr, f fr) else fr) rs) = map fst rs"
    for k :: string and f :: "string \<times> FamilyRange \<Rightarrow> FamilyRange" and rs
    by (induction rs) auto
  show ?thesis
  proof (cases "family c \<in> set (map fst (snd (snd st)))")
    case True
    then show ?thesis
      unfolding coverageStep_def Let_def snd_conv if_P [OF True] keep by auto
  next
    case False
    then show ?thesis
      unfolding coverageStep_def Let_def snd_conv if_not_P [OF False] by simp
  qed
qed

lemma fold_coverageStep_families:
  "set (map fst (snd (snd (fold coverageStep cs st)))) =
   family ` set cs \<union> set (map fst (snd (snd st)))"
  by (induction cs arbitrary: st) (simp_all add: coverageStep_families del: set_map)

lemma analyzeCoverage_families:
  "fst ` set (familyRanges (analyzeCoverage cs)) = family ` set cs"
  using fold_coverageStep_families [of cs "(initialBuckets, [], [])"]
  by (simp add: analyzeCoverage_def Let_def)

section \<open>Properties of DatasetPruner\<close>

text \<open>
  A pass over a gap bucket leaves \<^verbatim>\<open>final\<close> as it is, or appends one removed record
  whose hue lies in the bucket, sorts and truncates.
\<close>

lemma fillGap_cases:
  "fillGap k R b final = final \<or>
   (\<exists>c. c \<in> set R \<and> hueMin b \<le> hsl_h (hsl (color c)) \<and> hsl_h (hsl (color c)) < hueMax b \<and>
        fillGap k R b final = take k (js_sort byScore (final @ [c])))"
proof -
  let ?cands = "js_sort byScore
      (filter (\<lambda>sc. hsl_h (hsl (color sc)) \<ge> hueMin b \<and> hsl_h (hsl (color sc)) < hueMax b) R)"
  show ?thesis
  proof (cases ?cands)
    case Nil
    then show ?thesis by (simp add: fillGap_def)
  next
    case (Cons best rest)
    then have "best \<in> set ?cands" by simp
    then have "best \<in> set R \<and> hueMin b \<le> hsl_h (hsl (color best)) \<and>
               hsl_h (hsl (color best)) < hueMax b"
      by (simp add: set_js_sort)
    then show ?thesis using Cons by (auto simp: fillGap_def)
  qed
qed

lemma fillGap_length: "length final \<le> k \<Longrightarrow> length (fillGap k R b final) \<le> k"
  using fillGap_cases [of k R b final] by auto

lemma fold_fillGap_length:
  "length final \<le> k \<Longrightarrow> length (fold (fillGap k R) gs final) \<le> k"
  by (induction gs arbitrary: final) (simp_all add: fillGap_length)

lemma fold_fillGap_inv:
  assumes "sorted_wrt (\<lambda>b b'. hueMax b \<le> hueMin b') gs"
    and "mset final \<subseteq># mset F0 + mset ps"
    and "mset ps \<subseteq># mset R"
    and "\<forall>p \<in> set ps. \<forall>b \<in> set gs. hsl_h (hsl (color p)) < hueMin b"
  shows "\<exists>ps'. mset (fold (fillGap k R) gs final) \<subseteq># mset F0 + mset ps' \<and> mset ps' \<subseteq># mset R"
  using assms
proof (induction gs arbitrary: final ps)
  case Nil
  then show ?case by auto
next
  case (Cons b gs)
  have sorted: "sorted_wrt (\<lambda>b b'. hueMax b \<le> hueMin b') gs"
    using Cons.prems(1) by simp
  have later: "\<forall>b' \<in> set gs. hueMax b \<le> hueMin b'"
    using Cons.prems(1) by simp
  consider (same) "fillGap k R b final = final"
    | (push) c where "c \<in> set R" "hueMin b \<le> hsl_h (hsl (color c))"
        "hsl_h (hsl (color c)) < hueMax b"
        "fillGap k R b final = take k (js_sort byScore (final @ [c]))"
    using fillGap_cases [of k R b final] by blast
  then show ?case
  proof cases
    case same
    have "\<forall>p \<in> set ps. \<forall>b' \<in> set gs. hsl_h (hsl (color p)) < hueMin b'"
      using Cons.prems(4) by simp
    from Cons.IH [OF sorted Cons.prems(2) Cons.prems(3) this] show ?thesis
      by (simp add: same)
  next
    case push
    have notin: "c \<notin> set ps"
      using Cons.prems(4) push(2) by fastforce
    have "mset (take k (js_sort byScore (final @ [c]))) \<subseteq># mset (js_sort byScore (final @ [c]))"
      by (rule mset_take_subseteq)
    also have "\<dots> = add_mset c (mset final)" by (simp add: mset_js_sort)
    also have "\<dots> \<subseteq># mset F0 + mset (c # ps)"
      using Cons.prems(2) by simp
    finally have a: "mset (fillGap k R b final) \<subseteq># mset F0 + mset (c # ps)"
      by (simp add: push(4))
    have c0: "count_list ps c = 0" using notin by (rule count_notin)
    have c1: "count_list R c \<noteq> 0" using push(1) by (simp add: count_list_0_iff)
    have le: "count_list ps a \<le> count_list R a" for a
      using Cons.prems(3) by (metis count_mset mset_subset_eq_count)
    have "count_list (c # ps) a \<le> count_list R a" for a
      using c0 c1 le [of a] by (cases "a = c") auto
    then have b: "mset (c # ps) \<subseteq># mset R"
      by (intro mset_subset_eqI) (simp only: count_mset)
    have c: "\<forall>p \<in> set (c # ps). \<forall>b' \<in> set gs. hsl_h (hsl (color p)) < hueMin b'"
      using Cons.prems(4) later push(3) by fastforce
    from Cons.IH [OF sorted a b c] show ?thesis by simp
  qed
qed

lemma selectOptimalColors_length:
  "length (selectOptimalColors scored config) \<le> targetCount config"
  by (simp add: selectOptimalColors_def Let_def fold_fillGap_length)

lemma selectOptimalColors_subset:
  "mset (selectOptimalColors scored config) \<subseteq># mset scored"
proof -
  define fm where
    "fm = fold (\<lambda>sc groups. groupPush (family (color sc)) sc groups) scored []"
  define n where "n = nat \<lceil>real (targetCount config) / real (length fm) * 1.2\<rceil>"
  define selected where
    "selected = concat (map (\<lambda>g. take n (js_sort byScore (snd g))) fm)"
  define final0 where "final0 = take (targetCount config) (js_sort byScore selected)"
  define P :: "ColorQualityMetrics \<Rightarrow> bool" where "P = (\<lambda>sc. list_ex (\<lambda>f. hex (color f) = hex (color sc)) final0)"
  define R where "R = filter (\<lambda>sc. \<not> P sc) scored"
  define gaps where "gaps = getCriticalBuckets (analyzeCoverage (map color final0))"
  have fm: "mset (concat (map snd fm)) = mset scored"
    unfolding fm_def using fold_groupPush_mset [of "[]" "\<lambda>sc. family (color sc)" scored] by simp
  have "mset selected \<subseteq># mset (concat (map snd fm))"
    unfolding selected_def by (rule family_take_subseteq)
  then have sel: "mset selected \<subseteq># mset scored" by (simp add: fm)
  have "mset final0 \<subseteq># mset (js_sort byScore selected)"
    unfolding final0_def by (rule mset_take_subseteq)
  then have f0: "mset final0 \<subseteq># mset scored"
    using sel by (simp add: mset_js_sort)
  have allP: "\<forall>x \<in> set final0. P x"
    by (auto simp: P_def list_ex_iff)
  have "filter_mset P (mset final0) = mset final0"
    using allP by (simp add: filter_mset_eq_conv)
  then have f0P: "mset final0 \<subseteq># filter_mset P (mset scored)"
    using multiset_filter_mono [OF f0, of P] by simp
  have result: "selectOptimalColors scored config =
      (if gaps = [] then final0
       else fold (fillGap (targetCount config) R)
              (take (nat \<lceil>real (targetCount config) * 0.05\<rceil>) gaps) final0)"
    by (simp add: selectOptimalColors_def Let_def fm_def n_def selected_def final0_def
        P_def R_def gaps_def)
  have srt: "sorted_wrt (\<lambda>b b'. hueMax b \<le> hueMin b') (take m gaps)" for m
    unfolding gaps_def by (rule sorted_wrt_take [OF getCriticalBuckets_apart])
  have "\<exists>ps'. mset (fold (fillGap (targetCount config) R)
                      (take (nat \<lceil>real (targetCount config) * 0.05\<rceil>) gaps) final0)
               \<subseteq># mset final0 + mset ps' \<and> mset ps' \<subseteq># mset R"
    by (rule fold_fillGap_inv [OF srt, where ps = "[]"]) simp_all
  then obtain ps' where
    ps: "mset (fold (fillGap (targetCount config) R)
                 (take (nat \<lceil>real (targetCount config) * 0.05\<rceil>) gaps) final0)
         \<subseteq># mset final0 + mset ps'" "mset ps' \<subseteq># mset R"
    by blast
  have "mset final0 + mset ps' \<subseteq># filter_mset P (mset scored) + mset R"
    using f0P ps(2) by (rule subset_mset.add_mono)
  also have "\<dots> = mset scored"
    by (simp add: R_def multiset_partition [symmetric])
  finally have "mset final0 + mset ps' \<subseteq># mset scored" .
  then have "mset (fold (fillGap (targetCount config) R)
                 (take (nat \<lceil>real (targetCount config) * 0.05\<rceil>) gaps) final0)
             \<subseteq># mset scored"
    using ps(1) by (rule subset_mset.order_trans [rotated])
  then show ?thesis using f0 by (simp add: result)
qed

lemma scoreLoop_total:
  "\<forall>c \<in> set xs. family c \<in> fst ` set (familyRanges cov) \<Longrightarrow>
   \<exists>ms. scoreLoop cs cov xs = Inr ms \<and> length ms = length xs"
proof (induction xs)
  case Nil
  then show ?case by simp
next
  case (Cons c xs)
  then have "family c \<in> fst ` set (familyRanges cov)" by simp
  then obtain r where r: "map_of (familyRanges cov) (family c) = Some r"
    by (metis map_of_eq_None_iff not_Some_eq)
  from Cons obtain ms where "scoreLoop cs cov xs = Inr ms" "length ms = length xs"
    by auto
  then show ?case by (simp add: scoreOne_def Let_def r)
qed

lemma scoreAllColors_total:
  "\<exists>ms. scoreAllColors cs (analyzeCoverage cs) = Inr ms \<and> length ms = length cs"
  unfolding scoreAllColors_def
  by (rule scoreLoop_total) (simp add: analyzeCoverage_families)

text \<open>
  C1, as the specification states it, fails. Five colours, four of the family \<open>red\<close>
  and one of the family \<open>blue\<close>, pruned to the target 5: each family gives at most
  \<open>ceil(5 / 2 * 1.2) = 3\<close> records, so 3 + 1 = 4 are selected; the hue buckets of
  the selection hold 3 and 1 colours, none below half the mean 2, so nothing is filled back.
  The result has 4 records where \<open>min(5, 5) = 5\<close>.
\<close>

theorem prune_fewer_than_target_counterexample:
  "map_sum id data
     (prune
        [\<lparr>oid = 10, hex = ''#ff0000'', name = ''Red'', family = ''red'', hueRange = (0, 1),
           rgb = [1, 0, 0], hsl = \<lparr>hsl_h = 0, hsl_s = 100, hsl_l = 50\<rparr>\<rparr>,
         \<lparr>oid = 11, hex = ''#fe0000'', name = ''Red 2'', family = ''red'', hueRange = (0, 1),
           rgb = [0.996, 0, 0], hsl = \<lparr>hsl_h = 0, hsl_s = 100, hsl_l = 50\<rparr>\<rparr>,
         \<lparr>oid = 12, hex = ''#fd0000'', name = ''Red 3'', family = ''red'', hueRange = (0, 1),
           rgb = [0.992, 0, 0], hsl = \<lparr>hsl_h = 0, hsl_s = 100, hsl_l = 50\<rparr>\<rparr>,
         \<lparr>oid = 13, hex = ''#ff0100'', name = ''Red 4'', family = ''red'', hueRange = (0, 1.2),
           rgb = [1, 0.004, 0], hsl = \<lparr>hsl_h = 0, hsl_s = 100, hsl_l = 50\<rparr>\<rparr>,
         \<lparr>oid = 14, hex = ''#0000ff'', name = ''Blue'', family = ''blue'', hueRange = (239, 241),
           rgb = [0, 0, 1], hsl = \<lparr>hsl_h = 240, hsl_s = 100, hsl_l = 50\<rparr>\<rparr>]
        5
        \<lparr>optTargetCount = None, optMinFamilies = None, optMinCoverage = None,
           optPreserveExtremes = None\<rparr>)
   = Inr
       [\<lparr>oid = 10, hex = ''#ff0000'', name = ''Red'', family = ''red'', hueRange = (0, 1),
          rgb = [1, 0, 0], hsl = \<lparr>hsl_h = 0, hsl_s = 100, hsl_l = 50\<rparr>\<rparr>,
        \<lparr>oid = 11, hex = ''#fe0000'', name = ''Red 2'', family = ''red'', hueRange = (0, 1),
          rgb = [0.996, 0, 0], hsl = \<lparr>hsl_h = 0, hsl_s = 100, hsl_l = 50\<rparr>\<rparr>,
        \<lparr>oid = 12, hex = ''#fd0000'', name = ''Red 3'', family = ''red'', hueRange = (0, 1),
          rgb = [0.992, 0, 0], hsl = \<lparr>hsl_h = 0, hsl_s = 100, hsl_l = 50\<rparr>\<rparr>,
        \<lparr>oid = 14, hex = ''#0000ff'', name = ''Blue'', family = ''blue'', hueRange = (239, 241),
          rgb = [0, 0, 1], hsl = \<lparr>hsl_h = 240, hsl_s = 100, hsl_l = 50\<rparr>\<rparr>]"
  (is "map_sum id data (prune ?inp 5 ?opts) = Inr [?r1, ?r2, ?r3, ?b]")
proof -
  let ?r4 = "\<lparr>oid = 13, hex = ''#ff0100'', name = ''Red 4'', family = ''red'', hueRange = (0, 1.2),
           rgb = [1, 0.004, 0], hsl = \<lparr>hsl_h = 0, hsl_s = 100, hsl_l = 50\<rparr>\<rparr>"
  let ?m = "\<lambda>c. \<lparr>color = c, uniqueness = Num 0, saturationQuality = NaN, lightnessQuality = 0.3,
                   familyRepresentativity = 1, overallScore = NaN\<rparr>"
  let ?mb = "\<lparr>color = ?b, uniqueness = Num 1, saturationQuality = NaN, lightnessQuality = 0.3,
                   familyRepresentativity = 1, overallScore = NaN\<rparr>"
  have cov: "familyRanges (analyzeCoverage ?inp) =
      [(''red'', \<lparr>minH = 0, maxH = 0, minS = 100, maxS = 100, minL = 50, maxL = 50\<rparr>),
       (''blue'', \<lparr>minH = 240, maxH = 240, minS = 100, maxS = 100, minL = 50, maxL = 50\<rparr>)]"
    by (simp add: analyzeCoverage_def coverageStep_def Let_def)
  have sat: "calculateSaturationQuality 100 100 100 = NaN"
    by (simp add: calculateSaturationQuality_def Let_def js_div_def Math_min_def)
  have light: "calculateLightnessQuality 50 50 50 = 0.3"
    by (simp add: calculateLightnessQuality_def)
  have sc: "scoreAllColors ?inp (analyzeCoverage ?inp) = Inr [?m ?r1, ?m ?r2, ?m ?r3, ?m ?r4, ?mb]"
    unfolding scoreAllColors_def scoreLoop.simps scoreOne_def Let_def cov
    by (simp add: scoreColor_def Let_def sat light
        calculateUniqueness_def colorDistance_def Math_min_of_def Math_min_def js_div_def
        calculateFamilyRepresentativity_def)
  define config where "config = \<lparr>targetCount = 5, minFamilies = 20, minCoverage = 0.85,
      preserveExtremes = True\<rparr>"
  have fm: "fold (\<lambda>scored groups. groupPush (family (color scored)) scored groups)
              [?m ?r1, ?m ?r2, ?m ?r3, ?m ?r4, ?mb] [] =
            [(''red'', [?m ?r1, ?m ?r2, ?m ?r3, ?m ?r4]), (''blue'', [?mb])]"
    by (simp add: groupPush_def)
  have srt: "js_sort byScore xs = xs" if "\<forall>x \<in> set xs. overallScore x = NaN" for xs
    using that
  proof (induction xs)
    case Nil
    then show ?case by (simp add: js_sort_def)
  next
    case (Cons x xs)
    then have "js_sort byScore xs = xs" by simp
    then have "js_sort byScore (x # xs) = js_insert byScore x xs"
      by (simp add: js_sort_def)
    also have "\<dots> = x # xs"
      using Cons.prems by (cases xs) (simp_all add: byScore_def js_sub_def)
    finally show ?case .
  qed
  have gaps: "getCriticalBuckets (analyzeCoverage [?r1, ?r2, ?r3, ?b]) = []"
    by (simp add: getCriticalBuckets_def analyzeCoverage_def coverageStep_def initialBuckets_def
        finishBucket_def Let_def js_div_def upt_rec)
  have sel: "selectOptimalColors [?m ?r1, ?m ?r2, ?m ?r3, ?m ?r4, ?mb] config =
             [?m ?r1, ?m ?r2, ?m ?r3, ?mb]"
    unfolding selectOptimalColors_def Let_def fm
    by (simp add: srt config_def gaps [simplified])
  show ?thesis
    unfolding prune_def Let_def sc
    by (simp add: sel [unfolded config_def, simplified])
qed

text \<open>
  The gap backfill never shortens \<^verbatim>\<open>final\<close>, so the selection holds at least the
  records that step 2 keeps: the lesser of the target and the number taken in step 1.
\<close>

lemma fillGap_length_ge: "length final \<le> length (fillGap k R b final)"
  by (simp add: fillGap_def Let_def length_js_sort split: list.splits)

lemma fold_fillGap_length_ge: "length final \<le> length (fold (fillGap k R) gs final)"
proof (induction gs arbitrary: final)
  case Nil
  then show ?case by simp
next
  case (Cons b gs)
  have "length final \<le> length (fillGap k R b final)" by (rule fillGap_length_ge)
  also have "\<dots> \<le> length (fold (fillGap k R) gs (fillGap k R b final))" by (rule Cons.IH)
  finally show ?case by simp
qed

lemma selectOptimalColors_length_ge:
  "min (targetCount config)
     (\<Sum>f \<in> (\<lambda>sc. family (color sc)) ` set scored.
        min (nat \<lceil>real (targetCount config) /
                   real (card ((\<lambda>sc. family (color sc)) ` set scored)) * 1.2\<rceil>)
            (length (filter (\<lambda>sc. family (color sc) = f) scored)))
   \<le> length (selectOptimalColors scored config)"
proof -
  define fm where
    "fm = fold (\<lambda>sc groups. groupPush (family (color sc)) sc groups) scored []"
  define n where "n = nat \<lceil>real (targetCount config) / real (length fm) * 1.2\<rceil>"
  define selected where
    "selected = concat (map (\<lambda>g. take n (js_sort byScore (snd g))) fm)"
  define final0 where "final0 = take (targetCount config) (js_sort byScore selected)"
  have d: "distinct (map fst fm)" unfolding fm_def by (rule fold_groupPush_distinct) simp
  have k: "set (map fst fm) = (\<lambda>sc. family (color sc)) ` set scored"
    unfolding fm_def using fold_groupPush_keys [of "\<lambda>sc. family (color sc)" scored "[]"] by simp
  have "length fm = length (map fst fm)" by simp
  also have "\<dots> = card (set (map fst fm))" using d by (rule distinct_card [symmetric])
  finally have len: "length fm = card ((\<lambda>sc. family (color sc)) ` set scored)"
    unfolding k .
  have sel: "length selected =
      (\<Sum>f \<in> (\<lambda>sc. family (color sc)) ` set scored.
         min n (length (filter (\<lambda>sc. family (color sc) = f) scored)))"
    unfolding selected_def fm_def by (rule step1_length)
  have f0: "length final0 = min (targetCount config) (length selected)"
    by (simp add: final0_def length_js_sort min.commute)
  define R where
    "R = filter (\<lambda>sc. \<not> list_ex (\<lambda>f. hex (color f) = hex (color sc)) final0) scored"
  define gaps where "gaps = getCriticalBuckets (analyzeCoverage (map color final0))"
  have result: "selectOptimalColors scored config =
      (if gaps = [] then final0
       else fold (fillGap (targetCount config) R)
              (take (nat \<lceil>real (targetCount config) * 0.05\<rceil>) gaps) final0)"
    unfolding selectOptimalColors_def Let_def fm_def [symmetric] n_def [symmetric]
      selected_def [symmetric] final0_def [symmetric] R_def [symmetric] gaps_def [symmetric]
    by (rule refl)
  have "length final0 \<le> length (selectOptimalColors scored config)"
    unfolding result using fold_fillGap_length_ge [of final0 "targetCount config" R] by simp
  then show ?thesis
    unfolding f0 sel n_def len .
qed

lemma scoreLoop_colors: "scoreLoop cs cov xs = Inr ms \<Longrightarrow> map color ms = xs"
proof (induction xs arbitrary: ms)
  case Nil
  then show ?case by simp
next
  case (Cons c xs)
  then show ?case
    by (auto simp: scoreOne_def scoreColor_def Let_def split: sum.splits option.splits)
qed

text \<open>
  C1, amended. For every list of \<open>n\<close> colours, target count and options, \<^verbatim>\<open>prune\<close>
  returns (the lookup of the family range never fails). With \<open>k\<close> the target count in
  force (the one of the options when they carry one), \<open>quota = ceil(k / families * 1.2)\<close>
  and \<open>step1\<close> the sum over the families of the lesser of the quota and the size of the
  family, its data holds at least \<open>min(k, step1)\<close> and at most \<open>min(k, n)\<close> records, and so
  exactly \<open>min(k, n)\<close> whenever \<open>step1\<close> reaches \<open>min(k, n)\<close>.
\<close>

theorem prune_count_bounds:
  "\<exists>r. prune cs target options = Inr r \<and>
       (let k = (case optTargetCount options of None \<Rightarrow> target | Some v \<Rightarrow> v);
            quota = nat \<lceil>real k / real (card (family ` set cs)) * 1.2\<rceil>;
            step1 = (\<Sum>f \<in> family ` set cs. min quota (length (filter (\<lambda>c. family c = f) cs)))
        in min k step1 \<le> length (data r) \<and>
           length (data r) \<le> min k (length cs) \<and>
           (min k (length cs) \<le> step1 \<longrightarrow> length (data r) = min k (length cs)))"
proof -
  obtain ms where ms: "scoreAllColors cs (analyzeCoverage cs) = Inr ms" "length ms = length cs"
    using scoreAllColors_total by blast
  have col: "map color ms = cs"
    using ms(1) unfolding scoreAllColors_def by (rule scoreLoop_colors)
  define k where "k = (case optTargetCount options of None \<Rightarrow> target | Some v \<Rightarrow> v)"
  define config where "config =
      \<lparr>targetCount = k,
        minFamilies =
          (case optMinFamilies options of
             None \<Rightarrow> max 20 (nat \<lceil>real (card (set (map family cs))) * 0.7\<rceil>)
           | Some v \<Rightarrow> v),
        minCoverage = (case optMinCoverage options of None \<Rightarrow> 0.85 | Some v \<Rightarrow> v),
        preserveExtremes = (case optPreserveExtremes options of None \<Rightarrow> True | Some v \<Rightarrow> v)\<rparr>"
  define quota where "quota = nat \<lceil>real k / real (card (family ` set cs)) * 1.2\<rceil>"
  define step1 where
    "step1 = (\<Sum>f \<in> family ` set cs. min quota (length (filter (\<lambda>c. family c = f) cs)))"
  define sel where "sel = selectOptimalColors ms config"
  have tc: "targetCount config = k" by (simp add: config_def)
  have keys: "(\<lambda>sc. family (color sc)) ` set ms = family ` set cs"
  proof -
    have "(\<lambda>sc. family (color sc)) ` set ms = family ` set (map color ms)"
      by (simp add: image_image)
    then show ?thesis by (simp only: col)
  qed
  have grp: "length (filter (\<lambda>sc. family (color sc) = f) ms) =
             length (filter (\<lambda>c. family c = f) cs)" for f
  proof -
    have "filter (\<lambda>c. family c = f) (map color ms) =
          map color (filter (\<lambda>sc. family (color sc) = f) ms)"
      by (simp add: filter_map comp_def)
    then show ?thesis by (metis col length_map)
  qed
  have lower: "min k step1 \<le> length sel"
    using selectOptimalColors_length_ge [of config ms]
    unfolding tc keys grp sel_def step1_def quota_def .
  have "size (mset sel) \<le> size (mset ms)"
    unfolding sel_def by (rule size_mset_mono [OF selectOptimalColors_subset])
  then have a: "length sel \<le> length cs" by (simp add: ms(2))
  have b: "length sel \<le> k"
    using selectOptimalColors_length [of ms config] by (simp add: tc sel_def)
  have upper: "length sel \<le> min k (length cs)" using a b by simp
  have exact: "length sel = min k (length cs)" if "min k (length cs) \<le> step1"
    using that lower upper by arith
  have "prune cs target options =
      Inr \<lparr>data = map color sel,
            pruneStats = pruneStats (projr (prune cs target options))\<rparr>"
    by (simp add: prune_def Let_def ms(1) config_def k_def sel_def)
  moreover have "length (data \<lparr>data = map color sel,
            pruneStats = pruneStats (projr (prune cs target options))\<rparr>) = length sel"
    by simp
  ultimately show ?thesis
    using lower upper exact
    unfolding Let_def k_def [symmetric] quota_def [symmetric] step1_def [symmetric]
    by metis
qed

theorem prune_count_bounds_witness:
  "\<exists>r. prune
          [\<lparr>oid = 10, hex = ''#ff0000'', name = ''Red'', family = ''red'', hueRange = (0, 1),
             rgb = [1, 0, 0], hsl = \<lparr>hsl_h = 0, hsl_s = 100, hsl_l = 50\<rparr>\<rparr>,
           \<lparr>oid = 11, hex = ''#0000ff'', name = ''Blue'', family = ''blue'',
             hueRange = (239, 241), rgb = [0, 0, 1],
             hsl = \<lparr>hsl_h = 240, hsl_s = 100, hsl_l = 50\<rparr>\<rparr>]
          2
          \<lparr>optTargetCount = None, optMinFamilies = None, optMinCoverage = None,
             optPreserveExtremes = None\<rparr> = Inr r \<and>
        length (data r) = 2"
proof -
  let ?cs = "[\<lparr>oid = 10, hex = ''#ff0000'', name = ''Red'', family = ''red'', hueRange = (0, 1),
             rgb = [1, 0, 0], hsl = \<lparr>hsl_h = 0, hsl_s = 100, hsl_l = 50\<rparr>\<rparr>,
           \<lparr>oid = 11, hex = ''#0000ff'', name = ''Blue'', family = ''blue'',
             hueRange = (239, 241), rgb = [0, 0, 1],
             hsl = \<lparr>hsl_h = 240, hsl_s = 100, hsl_l = 50\<rparr>\<rparr>]"
  have fams: "family ` set ?cs = {''red'', ''blue''}" by auto
  have card: "card {''red'', ''blue''} = 2" by simp
  have step: "(\<Sum>f \<in> {''red'', ''blue''}. min (2::nat) (length (filter (\<lambda>c. family c = f) ?cs))) = 2"
    by simp
  have q: "nat \<lceil>real 2 / real 2 * 1.2\<rceil> = 2" by simp
  show ?thesis
    using prune_count_bounds [of ?cs 2 "\<lparr>optTargetCount = None, optMinFamilies = None,
        optMinCoverage = None, optPreserveExtremes = None\<rparr>"]
    unfolding Let_def fams card
    by (auto simp: step numeral_2_eq_2)
qed

end
